theory Spec2Isabelle
  imports Main "HOL-Library.Sublist"
begin

section \<open>Data model\<close>

text \<open>
  The Kubernetes objects the program reads, reduced to the fields the source touches.
  \<open>PodPhase\<close>, \<open>PodConditionType\<close> and \<open>ConditionStatus\<close> are string types in Go,
  so they stay strings here; the named constants are abbreviations of their literals.
\<close>

type_synonym error = string

type_synonym PodPhase = string
type_synonym PodConditionType = string
type_synonym ConditionStatus = string

abbreviation PodRunning :: PodPhase where "PodRunning \<equiv> ''Running''"
abbreviation PodPending :: PodPhase where "PodPending \<equiv> ''Pending''"
abbreviation PodReady :: PodConditionType where "PodReady \<equiv> ''Ready''"
abbreviation PodScheduled :: PodConditionType where "PodScheduled \<equiv> ''PodScheduled''"
abbreviation ConditionTrue :: ConditionStatus where "ConditionTrue \<equiv> ''True''"
abbreviation ConditionFalse :: ConditionStatus where "ConditionFalse \<equiv> ''False''"

type_synonym labels = "string \<rightharpoonup> string"

record PodCondition =
  Type :: PodConditionType
  Status :: ConditionStatus

datatype ContainerStateWaiting = ContainerStateWaiting string

record ContainerState =
  Waiting :: "ContainerStateWaiting option"

record ContainerStatus =
  Ready :: bool
  State :: ContainerState

record Container =
  ContainerName_of :: string

record PodSpec =
  Containers :: "Container list"

record PodStatus =
  Phase :: PodPhase
  Conditions :: "PodCondition list"
  PodIP :: string
  ContainerStatuses :: "ContainerStatus list"

record Pod =
  Name :: string
  Namespace_of :: string
  Labels :: labels
  Spec :: PodSpec
  PStatus :: PodStatus

section \<open>The outside world\<close>

text \<open>
  Everything the program asks of its surroundings is an oracle of the record \<open>world\<close>:
  the API server (get, delete), the network (HTTP, TCP), the exec channel, and the
  library routines whose code is not part of the repository (URL validation inside
  \<open>http.NewRequestWithContext\<close>, \<open>remotecommand.NewSPDYExecutor\<close>, \<open>labels.Parse\<close>,
  \<open>metav1.LabelSelectorAsSelector\<close>). Every call that leaves the process is recorded
  as an \<open>event\<close>; a function returns its value together with the events it caused,
  in order.
\<close>

datatype api_error = NotFoundErr string | OtherErr string

fun IsNotFound :: "api_error \<Rightarrow> bool" where
  "IsNotFound (NotFoundErr _) = True"
| "IsNotFound (OtherErr _) = False"

fun Error_of :: "api_error \<Rightarrow> string" where
  "Error_of (NotFoundErr m) = m"
| "Error_of (OtherErr m) = m"

datatype http_result = TransportError | Response int

text \<open>
  The outcome of streaming a remote command: the stream itself fails, or the command
  exits with a code and has written its standard output. \<open>StreamWithContext\<close> returns
  a non-nil error for a failed stream and for a non-zero exit code.
\<close>

datatype exec_outcome = StreamError | Exited int string

record exec_request =
  exec_namespace :: string
  exec_pod :: string
  exec_container :: string
  exec_command :: "string list"

type_synonym NamespacedName = "string \<times> string"

type_synonym selector = "labels \<Rightarrow> bool"

record LabelSelector =
  MatchLabels :: "(string \<times> string) list"

record StatefulSet =
  Selector :: "LabelSelector option"

datatype event =
    HTTPGet string
  | TCPDial string
  | ExecStream exec_request
  | GetPod NamespacedName
  | GetStatefulSet NamespacedName
  | DeletePod NamespacedName
  | LogInfo string
  | LogV1 string
  | LogError string string

record world =
  get_pod :: "NamespacedName \<Rightarrow> api_error + Pod"
  get_statefulset :: "NamespacedName \<Rightarrow> api_error + StatefulSet"
  delete_pod :: "NamespacedName \<Rightarrow> api_error option"
  new_request :: "string \<Rightarrow> error option"
  http_do :: "string \<Rightarrow> http_result"
  tcp_dial :: "string \<Rightarrow> bool"
  new_executor :: "exec_request \<Rightarrow> error option"
  stream :: "exec_request \<Rightarrow> exec_outcome"
  labels_Parse :: "string \<Rightarrow> error + selector"
  LabelSelectorAsSelector :: "LabelSelector \<Rightarrow> error + selector"

section \<open>Package health\<close>

datatype kubernetes_Interface = Clientset
datatype rest_Config = RestConfig

record Checker =
  timeout :: int
  k8sClient :: "kubernetes_Interface option"
  restConfig :: "rest_Config option"

definition NewChecker :: "int \<Rightarrow> Checker" where
  "NewChecker t = \<lparr>timeout = t, k8sClient = None, restConfig = None\<rparr>"

definition SetKubernetesClient :: "Checker \<Rightarrow> kubernetes_Interface \<Rightarrow> rest_Config \<Rightarrow> Checker" where
  "SetKubernetesClient c client config = c\<lparr>k8sClient := Some client, restConfig := Some config\<rparr>"

record HealthCheckOptions =
  HTTPCheckURL :: string
  ExecCommand :: string
  TCPPort :: int
  ContainerName :: string
  ExpectedOutput :: string

text \<open>The zero value \<open>HealthCheckOptions{}\<close>: no optional layer configured.\<close>

definition no_options :: HealthCheckOptions where
  "no_options = \<lparr>HTTPCheckURL = [], ExecCommand = [], TCPPort = 0, ContainerName = [],
     ExpectedOutput = []\<rparr>"

text \<open>
  A Go result pair \<open>(bool, error)\<close> is \<open>Inr b\<close> when the error is nil and \<open>Inl msg\<close>
  otherwise (the source returns \<open>false\<close> beside every non-nil error).
\<close>

type_synonym verdict = "error + bool"

subsection \<open>Decimal formatting (\<open>%d\<close>)\<close>

definition digit_char :: "nat \<Rightarrow> char" where
  "digit_char d = char_of (48 + d)"

function nat_to_dec :: "nat \<Rightarrow> string" where
  "nat_to_dec n = (if n < 10 then [digit_char n] else nat_to_dec (n div 10) @ [digit_char (n mod 10)])"
  by pat_completeness auto
termination
  by (relation "measure id") auto

declare nat_to_dec.simps [simp del]

definition itoa :: "int \<Rightarrow> string" where
  "itoa i = (if i < 0 then CHR ''-'' # nat_to_dec (nat (- i)) else nat_to_dec (nat i))"

subsection \<open>checkHTTPHealth\<close>

definition http_url :: "string \<Rightarrow> string \<Rightarrow> string" where
  "http_url ip path = ''http://'' @ ip @ '':8080'' @ path"

definition checkHTTPHealth :: "world \<Rightarrow> Checker \<Rightarrow> Pod \<Rightarrow> string \<Rightarrow> verdict \<times> event list" where
  "checkHTTPHealth w c pod healthCheckURL =
     (if PodIP (PStatus pod) = [] then (Inl ''pod IP is not available'', [])
      else
        let url = http_url (PodIP (PStatus pod)) healthCheckURL in
        case new_request w url of
          Some err \<Rightarrow> (Inl (''failed to create request: '' @ err), [])
        | None \<Rightarrow>
            (case http_do w url of
               TransportError \<Rightarrow> (Inr False, [HTTPGet url])
             | Response code \<Rightarrow> (Inr (200 \<le> code \<and> code < 400), [HTTPGet url])))"

subsection \<open>checkTCPPort\<close>

definition tcp_address :: "string \<Rightarrow> int \<Rightarrow> string" where
  "tcp_address ip port = ip @ '':'' @ itoa port"

definition checkTCPPort :: "world \<Rightarrow> Checker \<Rightarrow> Pod \<Rightarrow> int \<Rightarrow> verdict \<times> event list" where
  "checkTCPPort w c pod port =
     (if PodIP (PStatus pod) = [] then (Inl ''pod IP is not available'', [])
      else
        let address = tcp_address (PodIP (PStatus pod)) port in
        if tcp_dial w address then (Inr True, [TCPDial address])
        else (Inr False, [TCPDial address]))"

subsection \<open>contains\<close>

text \<open>
  The loop \<open>for i := 0; i <= len(s)-len(substr); i++\<close> over the slices
  \<open>s[i:i+len(substr)]\<close>. The guard before it makes the subtraction non-negative and
  keeps every slice within \<open>s\<close>.
\<close>

function contains_loop :: "string \<Rightarrow> string \<Rightarrow> nat \<Rightarrow> bool" where
  "contains_loop s substr i =
     (if i \<le> length s - length substr then
        (if take (length substr) (drop i s) = substr then True
         else contains_loop s substr (i + 1))
      else False)"
  by pat_completeness auto
termination
  by (relation "measure (\<lambda>(s, substr, i). Suc (length s - length substr) - i)") auto

declare contains_loop.simps [simp del]

definition contains :: "string \<Rightarrow> string \<Rightarrow> bool" where
  "contains s substr = (if length substr > length s then False else contains_loop s substr 0)"

subsection \<open>checkExecCommand\<close>

definition checkExecCommand ::
  "world \<Rightarrow> Checker \<Rightarrow> Pod \<Rightarrow> string \<Rightarrow> string \<Rightarrow> string \<Rightarrow> verdict \<times> event list" where
  "checkExecCommand w c pod command containerName expectedOutput =
     (if k8sClient c = None \<or> restConfig c = None then
        (Inl ''kubernetes client not configured for exec checks'', [])
      else case Containers (Spec pod) of
        [] \<Rightarrow> (Inl ''pod has no containers'', [])
      | first # _ \<Rightarrow>
          (let container = (if containerName = [] then ContainerName_of first else containerName);
              req = \<lparr>exec_namespace = Namespace_of pod, exec_pod = Name pod,
                     exec_container = container, exec_command = [''sh'', ''-c'', command]\<rparr>
          in (case new_executor w req of
               Some err \<Rightarrow> (Inl (''failed to create executor: '' @ err), [])
             | None \<Rightarrow>
                 (case stream w req of
                    StreamError \<Rightarrow> (Inr False, [ExecStream req])
                  | Exited code output \<Rightarrow>
                      (if code \<noteq> 0 then (Inr False, [ExecStream req])
                       else if expectedOutput \<noteq> [] \<and>
                               (output \<noteq> expectedOutput \<and> \<not> contains output expectedOutput)
                         then (Inr False, [ExecStream req])
                       else (Inr True, [ExecStream req]))))))"

subsection \<open>IsPodHealthy\<close>

text \<open>
  The loop over \<open>pod.Status.Conditions\<close> of \<open>IsPodHealthy\<close>: \<open>False\<close> when the loop
  returns early (a \<open>Ready\<close> entry whose status is not \<open>True\<close>), \<open>True\<close> when it runs to
  its end.
\<close>

fun ready_conditions :: "PodCondition list \<Rightarrow> bool" where
  "ready_conditions [] = True"
| "ready_conditions (condition # rest) =
     (if Type condition = PodReady \<and> Status condition \<noteq> ConditionTrue then False
      else ready_conditions rest)"

definition exec_layer :: "world \<Rightarrow> Checker \<Rightarrow> Pod \<Rightarrow> HealthCheckOptions \<Rightarrow> verdict \<times> event list" where
  "exec_layer w c pod opts =
     (if ExecCommand opts \<noteq> [] then
        (case checkExecCommand w c pod (ExecCommand opts) (ContainerName opts) (ExpectedOutput opts) of
           (Inl err, t) \<Rightarrow> (Inl (''exec command check failed: '' @ err), t)
         | (Inr healthy, t) \<Rightarrow> (if \<not> healthy then (Inr False, t) else (Inr True, t)))
      else (Inr True, []))"

definition tcp_layer :: "world \<Rightarrow> Checker \<Rightarrow> Pod \<Rightarrow> HealthCheckOptions \<Rightarrow> verdict \<times> event list" where
  "tcp_layer w c pod opts =
     (if TCPPort opts > 0 then
        (case checkTCPPort w c pod (TCPPort opts) of
           (Inl err, t) \<Rightarrow> (Inl (''tcp port check failed: '' @ err), t)
         | (Inr healthy, t) \<Rightarrow>
             (if \<not> healthy then (Inr False, t)
              else (case exec_layer w c pod opts of (r, t') \<Rightarrow> (r, t @ t'))))
      else exec_layer w c pod opts)"

definition http_layer :: "world \<Rightarrow> Checker \<Rightarrow> Pod \<Rightarrow> HealthCheckOptions \<Rightarrow> verdict \<times> event list" where
  "http_layer w c pod opts =
     (if HTTPCheckURL opts \<noteq> [] then
        (case checkHTTPHealth w c pod (HTTPCheckURL opts) of
           (Inl err, t) \<Rightarrow> (Inl (''http health check failed: '' @ err), t)
         | (Inr healthy, t) \<Rightarrow>
             (if \<not> healthy then (Inr False, t)
              else (case tcp_layer w c pod opts of (r, t') \<Rightarrow> (r, t @ t'))))
      else tcp_layer w c pod opts)"

definition IsPodHealthy :: "world \<Rightarrow> Checker \<Rightarrow> Pod \<Rightarrow> HealthCheckOptions \<Rightarrow> verdict \<times> event list" where
  "IsPodHealthy w c pod opts =
     (if Phase (PStatus pod) \<noteq> PodRunning then (Inr False, [])
      else if \<not> ready_conditions (Conditions (PStatus pod)) then (Inr False, [])
      else http_layer w c pod opts)"

subsection \<open>CheckPodStatus\<close>

fun status_conditions :: "PodCondition list \<Rightarrow> bool" where
  "status_conditions [] = True"
| "status_conditions (condition # rest) =
     (if Type condition = PodReady \<and> Status condition \<noteq> ConditionTrue then False
      else if Type condition = PodScheduled \<and> Status condition \<noteq> ConditionTrue then False
      else status_conditions rest)"

fun status_containers :: "ContainerStatus list \<Rightarrow> bool" where
  "status_containers [] = True"
| "status_containers (containerStatus # rest) =
     (if \<not> Ready containerStatus then False
      else if Waiting (State containerStatus) \<noteq> None then False
      else status_containers rest)"

definition CheckPodStatus :: "Checker \<Rightarrow> Pod \<Rightarrow> bool" where
  "CheckPodStatus c pod =
     (if \<not> status_conditions (Conditions (PStatus pod)) then False
      else status_containers (ContainerStatuses (PStatus pod)))"

section \<open>Package controller\<close>

record Result =
  Requeue :: bool
  RequeueAfter :: int

text \<open>\<open>time.Duration\<close> counts nanoseconds; \<open>ctrl.Result{}\<close> is the zero value.\<close>

abbreviation Second :: int where "Second \<equiv> 1000000000"

definition empty_Result :: Result where
  "empty_Result = \<lparr>Requeue = False, RequeueAfter = 0\<rparr>"

record PodReconciler =
  StatefulSetName :: string
  PodLabelSelector :: string
  Namespace :: string
  HealthChecker :: Checker
  Options :: HealthCheckOptions

subsection \<open>belongsToStatefulSet\<close>

definition belongsToStatefulSet :: "world \<Rightarrow> PodReconciler \<Rightarrow> Pod \<Rightarrow> bool \<times> event list" where
  "belongsToStatefulSet w r pod =
     (let statefulSetKey = (Namespace r, StatefulSetName r) in
      case get_statefulset w statefulSetKey of
        Inl err \<Rightarrow>
          (False, [GetStatefulSet statefulSetKey, LogError (Error_of err) ''Failed to get StatefulSet''])
      | Inr statefulSet \<Rightarrow>
          (case Selector statefulSet of
             None \<Rightarrow> (False, [GetStatefulSet statefulSetKey])
           | Some ls \<Rightarrow>
               (case LabelSelectorAsSelector w ls of
                  Inl err \<Rightarrow>
                    (False, [GetStatefulSet statefulSetKey, LogError err ''Failed to create selector''])
                | Inr selector \<Rightarrow> (selector (Labels pod), [GetStatefulSet statefulSetKey]))))"

subsection \<open>matchesFilter\<close>

text \<open>The second half of \<open>matchesFilter\<close>, from the test of \<open>r.PodLabelSelector\<close> on.\<close>

definition matches_label_selector :: "world \<Rightarrow> PodReconciler \<Rightarrow> Pod \<Rightarrow> bool \<times> event list" where
  "matches_label_selector w r pod =
     (if PodLabelSelector r \<noteq> [] then
        (case labels_Parse w (PodLabelSelector r) of
           Inl err \<Rightarrow> (False, [LogError err ''Failed to parse pod label selector''])
         | Inr selector \<Rightarrow> (if \<not> selector (Labels pod) then (False, []) else (True, [])))
      else (True, []))"

definition matchesFilter :: "world \<Rightarrow> PodReconciler \<Rightarrow> Pod \<Rightarrow> bool \<times> event list" where
  "matchesFilter w r pod =
     (if StatefulSetName r \<noteq> [] then
        (case belongsToStatefulSet w r pod of
           (belongs, t) \<Rightarrow>
             (if \<not> belongs then (False, t)
              else (case matches_label_selector w r pod of (m, t') \<Rightarrow> (m, t @ t'))))
      else matches_label_selector w r pod)"

subsection \<open>Reconcile\<close>

text \<open>
  The branch of \<open>Reconcile\<close> taken when the pod is unhealthy: the status is validated
  for the log only, then the pod is deleted.
\<close>

definition restart :: "world \<Rightarrow> PodReconciler \<Rightarrow> Pod \<Rightarrow> (Result \<times> error option) \<times> event list" where
  "restart w r pod =
     (let key = (Namespace_of pod, Name pod);
          t = [LogInfo ''Pod is unhealthy, triggering restart''] @
              (if \<not> CheckPodStatus (HealthChecker r) pod
               then [LogInfo ''Pod status check failed, proceeding with restart''] else [])
      in case delete_pod w key of
           Some err \<Rightarrow>
             (if IsNotFound err then ((empty_Result, None), t @ [DeletePod key])
              else ((\<lparr>Requeue = False, RequeueAfter = 10 * Second\<rparr>, None),
                    t @ [DeletePod key, LogError (Error_of err) ''Failed to delete pod'']))
         | None \<Rightarrow>
             ((empty_Result, None),
              t @ [DeletePod key, LogInfo ''Successfully triggered pod restart'']))"

definition Reconcile :: "world \<Rightarrow> PodReconciler \<Rightarrow> NamespacedName \<Rightarrow> (Result \<times> error option) \<times> event list" where
  "Reconcile w r req =
     (case get_pod w req of
        Inl err \<Rightarrow>
          (if IsNotFound err then ((empty_Result, None), [GetPod req])
           else ((empty_Result, Some (''failed to get pod: '' @ Error_of err)), [GetPod req]))
      | Inr pod \<Rightarrow>
          (case matchesFilter w r pod of
             (matches, t1) \<Rightarrow>
               if \<not> matches then
                 ((empty_Result, None),
                  [GetPod req] @ t1 @ [LogV1 ''Pod does not match filter criteria, skipping''])
               else
                 (case IsPodHealthy w (HealthChecker r) pod (Options r) of
                    (Inl err, t2) \<Rightarrow>
                      ((\<lparr>Requeue = False, RequeueAfter = 10 * Second\<rparr>, None),
                       [GetPod req] @ t1 @ [LogInfo ''Reconciling pod''] @ t2 @
                       [LogError err ''Failed to check pod health''])
                  | (Inr healthy, t2) \<Rightarrow>
                      if \<not> healthy then
                        (case restart w r pod of
                           (res, t3) \<Rightarrow>
                             (res, [GetPod req] @ t1 @ [LogInfo ''Reconciling pod''] @ t2 @ t3))
                      else
                        ((empty_Result, None),
                         [GetPod req] @ t1 @ [LogInfo ''Reconciling pod''] @ t2 @
                         [LogV1 ''Pod is healthy'']))))"

section \<open>Label selectors\<close>

text \<open>
  Modelled from the spec: \<open>labels.Parse\<close>, \<open>Selector.Matches\<close> and
  \<open>metav1.LabelSelectorAsSelector\<close> belong to the Kubernetes libraries, whose code is
  not in the repository. The spec describes the selector text as equality terms joined
  by commas (\<open>app=router,component=druid\<close>), a unit matching iff every term's key is
  present with the exact value; a resolved group selector \<open>{app: router}\<close> matches a
  unit iff the unit carries each of its labels. Text with a term that has no \<open>=\<close> is
  malformed.
\<close>

fun split_on :: "char \<Rightarrow> string \<Rightarrow> string list" where
  "split_on c [] = [[]]"
| "split_on c (x # xs) =
     (if x = c then [] # split_on c xs
      else (case split_on c xs of [] \<Rightarrow> [[x]] | y # ys \<Rightarrow> (x # y) # ys))"

definition parse_term :: "string \<Rightarrow> (string \<times> string) option" where
  "parse_term t =
     (if CHR ''='' \<in> set t
      then Some (takeWhile (\<lambda>ch. ch \<noteq> CHR ''='') t, tl (dropWhile (\<lambda>ch. ch \<noteq> CHR ''='') t))
      else None)"

definition parse_terms :: "string \<Rightarrow> (string \<times> string) list option" where
  "parse_terms s = those (map parse_term (split_on CHR '','' s))"

definition satisfies :: "(string \<times> string) list \<Rightarrow> selector" where
  "satisfies ts ls = list_all (\<lambda>(k, v). ls k = Some v) ts"

definition spec_Parse :: "string \<Rightarrow> error + selector" where
  "spec_Parse s =
     (case parse_terms s of
        None \<Rightarrow> Inl ''malformed selector''
      | Some ts \<Rightarrow> Inr (satisfies ts))"

definition spec_LabelSelectorAsSelector :: "LabelSelector \<Rightarrow> error + selector" where
  "spec_LabelSelectorAsSelector ls = Inr (satisfies (MatchLabels ls))"

subsection \<open>Selector text\<close>

text \<open>
  The selector text of a list of equality terms: \<open>key=value\<close>, joined by commas. A term
  is well formed when its key has neither comma nor equals sign and its value no comma.
\<close>

definition render_term :: "string \<times> string \<Rightarrow> string" where
  "render_term t = fst t @ ''='' @ snd t"

fun join_terms :: "(string \<times> string) list \<Rightarrow> string" where
  "join_terms [] = []"
| "join_terms [t] = render_term t"
| "join_terms (t # u # ts) = render_term t @ '','' @ join_terms (u # ts)"

definition well_formed_term :: "string \<times> string \<Rightarrow> bool" where
  "well_formed_term t \<longleftrightarrow>
     CHR '','' \<notin> set (fst t) \<and> CHR ''='' \<notin> set (fst t) \<and> CHR '','' \<notin> set (snd t)"

section \<open>Observations\<close>

text \<open>
  The optional layer an event belongs to, and the layers a trace runs through, in the
  order of the calls. Events of the controller (API calls, log lines) belong to none.
\<close>

datatype layer = HTTPLayer | TCPLayer | ExecLayer

fun layer_of :: "event \<Rightarrow> layer option" where
  "layer_of (HTTPGet _) = Some HTTPLayer"
| "layer_of (TCPDial _) = Some TCPLayer"
| "layer_of (ExecStream _) = Some ExecLayer"
| "layer_of _ = None"

fun layers :: "event list \<Rightarrow> layer list" where
  "layers [] = []"
| "layers (e # t) = (case layer_of e of None \<Rightarrow> layers t | Some l \<Rightarrow> l # layers t)"

text \<open>The verdict of the exec check once the command has been streamed.\<close>

definition exec_passes :: "string \<Rightarrow> exec_outcome \<Rightarrow> bool" where
  "exec_passes expected outcome =
     (case outcome of
        StreamError \<Rightarrow> False
      | Exited code output \<Rightarrow>
          code = 0 \<and> (expected = [] \<or> output = expected \<or> sublist expected output))"

section \<open>Concrete pods, options and worlds\<close>

text \<open>
  The inputs at which the properties below are instantiated: a running, ready pod of the
  stateful set \<open>druid-router\<close>, variations of it, reconcilers for the three ways of
  filtering, and worlds that differ from one in which every external call succeeds by a
  single failing call.
\<close>

definition demo_pod :: Pod where
  "demo_pod = \<lparr>Name = ''druid-router-0'', Namespace_of = ''druid'',
     Labels = [''app'' \<mapsto> ''router''],
     Spec = \<lparr>Containers = [\<lparr>ContainerName_of = ''router''\<rparr>]\<rparr>,
     PStatus = \<lparr>Phase = PodRunning,
       Conditions = [\<lparr>Type = PodReady, Status = ConditionTrue\<rparr>],
       PodIP = ''10.0.0.1'',
       ContainerStatuses = [\<lparr>Ready = True, State = \<lparr>Waiting = None\<rparr>\<rparr>]\<rparr>\<rparr>"

definition quiet_world :: world where
  "quiet_world = \<lparr>
     get_pod = (\<lambda>k. if k = (''druid'', ''druid-router-0'') then Inr demo_pod
                     else Inl (NotFoundErr ''not found'')),
     get_statefulset = (\<lambda>k. if k = (''druid'', ''druid-router'')
                     then Inr \<lparr>Selector = Some \<lparr>MatchLabels = [(''app'', ''router'')]\<rparr>\<rparr>
                     else Inl (NotFoundErr ''not found'')),
     delete_pod = (\<lambda>k. None),
     new_request = (\<lambda>url. None),
     http_do = (\<lambda>url. Response 200),
     tcp_dial = (\<lambda>address. True),
     new_executor = (\<lambda>req. None),
     stream = (\<lambda>req. Exited 0 ''java''),
     labels_Parse = spec_Parse,
     LabelSelectorAsSelector = spec_LabelSelectorAsSelector\<rparr>"

definition all_options :: HealthCheckOptions where
  "all_options = \<lparr>HTTPCheckURL = ''/status/health'', ExecCommand = ''ps aux | grep java'',
     TCPPort = 8080, ContainerName = [], ExpectedOutput = ''java''\<rparr>"

definition pending_pod :: Pod where
  "pending_pod = demo_pod\<lparr>PStatus := \<lparr>Phase = PodPending, Conditions = [], PodIP = [],
     ContainerStatuses = []\<rparr>\<rparr>"

definition unready_container_pod :: Pod where
  "unready_container_pod = demo_pod\<lparr>PStatus := (PStatus demo_pod)\<lparr>ContainerStatuses :=
     [\<lparr>Ready = False, State = \<lparr>Waiting = Some (ContainerStateWaiting ''CrashLoopBackOff'')\<rparr>\<rparr>]\<rparr>\<rparr>"

definition checker :: Checker where
  "checker = NewChecker (5 * Second)"

definition exec_checker :: Checker where
  "exec_checker = SetKubernetesClient (NewChecker (5 * Second)) Clientset RestConfig"

definition http_down_world :: world where
  "http_down_world = quiet_world\<lparr>http_do := (\<lambda>url. Response 503)\<rparr>"

definition tcp_closed_world :: world where
  "tcp_closed_world = quiet_world\<lparr>tcp_dial := (\<lambda>address. False)\<rparr>"

definition bare_pod :: Pod where
  "bare_pod = demo_pod\<lparr>PStatus := (PStatus demo_pod)\<lparr>Conditions :=
     [\<lparr>Type = PodScheduled, Status = ConditionTrue\<rparr>]\<rparr>\<rparr>"

definition http_only :: HealthCheckOptions where
  "http_only = no_options\<lparr>HTTPCheckURL := ''/status/health''\<rparr>"

definition no_slash_options :: HealthCheckOptions where
  "no_slash_options = no_options\<lparr>HTTPCheckURL := ''health''\<rparr>"

definition strict_url_world :: world where
  "strict_url_world = quiet_world\<lparr>new_request :=
     (\<lambda>url. if url = ''http://10.0.0.1:8080health'' then Some ''invalid port'' else None)\<rparr>"

definition http_unreachable_world :: world where
  "http_unreachable_world = quiet_world\<lparr>http_do := (\<lambda>url. TransportError)\<rparr>"

definition no_ip_pod :: Pod where
  "no_ip_pod = demo_pod\<lparr>PStatus := (PStatus demo_pod)\<lparr>PodIP := []\<rparr>\<rparr>"

definition exec_only :: HealthCheckOptions where
  "exec_only = no_options\<lparr>ExecCommand := ''ps aux | grep java'', ExpectedOutput := ''java''\<rparr>"

definition demo_request :: exec_request where
  "demo_request = \<lparr>exec_namespace = ''druid'', exec_pod = ''druid-router-0'',
     exec_container = ''router'', exec_command = [''sh'', ''-c'', ''ps aux | grep java'']\<rparr>"

definition exit2_world :: world where
  "exit2_world = quiet_world\<lparr>stream := (\<lambda>req. Exited 2 [])\<rparr>"

definition python_world :: world where
  "python_world = quiet_world\<lparr>stream := (\<lambda>req. Exited 0 ''python'')\<rparr>"

definition broken_stream_world :: world where
  "broken_stream_world = quiet_world\<lparr>stream := (\<lambda>req. StreamError)\<rparr>"

definition verbose_world :: world where
  "verbose_world = quiet_world\<lparr>stream := (\<lambda>req. Exited 0 ''/usr/bin/java -jar router.jar'')\<rparr>"

abbreviation demo_key :: NamespacedName where
  "demo_key \<equiv> (''druid'', ''druid-router-0'')"

definition sts_reconciler :: PodReconciler where
  "sts_reconciler = \<lparr>StatefulSetName = ''druid-router'', PodLabelSelector = [],
     Namespace = ''druid'', HealthChecker = exec_checker, Options = all_options\<rparr>"

definition both_reconciler :: PodReconciler where
  "both_reconciler = sts_reconciler\<lparr>PodLabelSelector := ''app=router''\<rparr>"

definition label_reconciler :: PodReconciler where
  "label_reconciler = sts_reconciler\<lparr>StatefulSetName := [], PodLabelSelector := ''app=router''\<rparr>"

definition api_down_world :: world where
  "api_down_world = quiet_world\<lparr>get_pod := (\<lambda>k. Inl (OtherErr ''connection refused''))\<rparr>"

definition delete_fails_world :: world where
  "delete_fails_world = tcp_closed_world\<lparr>delete_pod := (\<lambda>k. Some (OtherErr ''forbidden''))\<rparr>"

definition already_gone_world :: world where
  "already_gone_world = tcp_closed_world\<lparr>delete_pod := (\<lambda>k. Some (NotFoundErr ''not found''))\<rparr>"

definition no_executor_world :: world where
  "no_executor_world = quiet_world\<lparr>new_executor := (\<lambda>req. Some ''dial failed'')\<rparr>"

definition sts_down_world :: world where
  "sts_down_world = quiet_world\<lparr>get_statefulset := (\<lambda>k. Inl (OtherErr ''timeout''))\<rparr>"

definition nil_selector_world :: world where
  "nil_selector_world = quiet_world\<lparr>get_statefulset := (\<lambda>k. Inr \<lparr>Selector = None\<rparr>)\<rparr>"

definition bad_selector_world :: world where
  "bad_selector_world = quiet_world\<lparr>LabelSelectorAsSelector := (\<lambda>ls. Inl ''invalid label value'')\<rparr>"

definition frontend_reconciler :: PodReconciler where
  "frontend_reconciler = both_reconciler\<lparr>PodLabelSelector := ''app=frontend''\<rparr>"

section \<open>Properties\<close>

subsection \<open>Substring search\<close>

lemma contains_loop_iff:
  assumes "length substr \<le> length s"
  shows "contains_loop s substr i \<longleftrightarrow>
    (\<exists>j. i \<le> j \<and> j \<le> length s - length substr \<and> take (length substr) (drop j s) = substr)"
  using assms
proof (induction s substr i rule: contains_loop.induct)
  case (1 s substr i)
  show ?case
  proof (cases "i \<le> length s - length substr")
    case False
    then show ?thesis
      by (subst contains_loop.simps) auto
  next
    case True
    show ?thesis
    proof (cases "take (length substr) (drop i s) = substr")
      case hit: True
      with True show ?thesis
        by (subst contains_loop.simps) auto
    next
      case miss: False
      have "contains_loop s substr i = contains_loop s substr (i + 1)"
        using True miss by (subst contains_loop.simps) simp
      also have "\<dots> \<longleftrightarrow> (\<exists>j. i + 1 \<le> j \<and> j \<le> length s - length substr
          \<and> take (length substr) (drop j s) = substr)"
        using "1.IH" [OF True miss "1.prems"] .
      also have "\<dots> \<longleftrightarrow> (\<exists>j. i \<le> j \<and> j \<le> length s - length substr
          \<and> take (length substr) (drop j s) = substr)"
      proof
        assume "\<exists>j. i + 1 \<le> j \<and> j \<le> length s - length substr
          \<and> take (length substr) (drop j s) = substr"
        then show "\<exists>j. i \<le> j \<and> j \<le> length s - length substr
          \<and> take (length substr) (drop j s) = substr"
          by (metis add_leD1)
      next
        assume "\<exists>j. i \<le> j \<and> j \<le> length s - length substr
          \<and> take (length substr) (drop j s) = substr"
        then obtain j where j: "i \<le> j" "j \<le> length s - length substr"
          "take (length substr) (drop j s) = substr" by blast
        with miss have "j \<noteq> i" by auto
        with j(1) have "i + 1 \<le> j" by simp
        with j show "\<exists>j. i + 1 \<le> j \<and> j \<le> length s - length substr
          \<and> take (length substr) (drop j s) = substr" by blast
      qed
      finally show ?thesis .
    qed
  qed
qed

lemma contains_sublist: "contains s substr \<longleftrightarrow> sublist substr s"
proof (cases "length substr \<le> length s")
  case False
  then have "\<not> sublist substr s"
    by (auto simp: sublist_def)
  with False show ?thesis by (simp add: contains_def)
next
  case True
  have "contains s substr \<longleftrightarrow>
      (\<exists>j. j \<le> length s - length substr \<and> take (length substr) (drop j s) = substr)"
    using True contains_loop_iff [OF True, of 0] by (simp add: contains_def)
  also have "\<dots> \<longleftrightarrow> sublist substr s"
  proof
    assume "\<exists>j. j \<le> length s - length substr \<and> take (length substr) (drop j s) = substr"
    then obtain j where j: "j \<le> length s - length substr"
      "take (length substr) (drop j s) = substr" by blast
    have "drop j s = take (length substr) (drop j s) @ drop (length substr) (drop j s)"
      by (simp only: append_take_drop_id)
    moreover have "s = take j s @ drop j s"
      by (simp only: append_take_drop_id)
    ultimately have "s = take j s @ take (length substr) (drop j s) @ drop (length substr) (drop j s)"
      by (simp only:)
    with j(2) have "s = take j s @ substr @ drop (length substr) (drop j s)" by simp
    then show "sublist substr s" unfolding sublist_def by blast
  next
    assume "sublist substr s"
    then obtain ps ss where s: "s = ps @ substr @ ss" unfolding sublist_def by blast
    then have "length ps \<le> length s - length substr"
      and "take (length substr) (drop (length ps) s) = substr" by simp_all
    then show "\<exists>j. j \<le> length s - length substr \<and> take (length substr) (drop j s) = substr"
      by blast
  qed
  finally show ?thesis .
qed


subsection \<open>The exec check\<close>

lemma checkExecCommand_no_client:
  assumes "k8sClient c = None \<or> restConfig c = None"
  shows "checkExecCommand w c pod cmd name expected =
    (Inl ''kubernetes client not configured for exec checks'', [])"
  using assms by (simp add: checkExecCommand_def)

lemma checkExecCommand_runs:
  assumes "k8sClient c \<noteq> None" "restConfig c \<noteq> None"
    and "Containers (Spec pod) = first # rest"
    and "req = \<lparr>exec_namespace = Namespace_of pod, exec_pod = Name pod,
           exec_container = (if name = [] then ContainerName_of first else name),
           exec_command = [''sh'', ''-c'', cmd]\<rparr>"
    and "new_executor w req = None"
  shows "checkExecCommand w c pod cmd name expected =
    (Inr (exec_passes expected (stream w req)), [ExecStream req])"
proof (cases "stream w req")
  case StreamError
  with assms show ?thesis
    by (auto simp: checkExecCommand_def exec_passes_def Let_def)
next
  case (Exited code out)
  with assms show ?thesis
    by (auto simp: checkExecCommand_def exec_passes_def contains_sublist Let_def)
qed

lemma checkExecCommand_streamed:
  assumes "ExecStream req \<in> set (snd (checkExecCommand w c pod cmd name expected))"
  shows "k8sClient c \<noteq> None \<and> restConfig c \<noteq> None \<and>
    (\<exists>first rest. Containers (Spec pod) = first # rest \<and>
       req = \<lparr>exec_namespace = Namespace_of pod, exec_pod = Name pod,
           exec_container = (if name = [] then ContainerName_of first else name),
           exec_command = [''sh'', ''-c'', cmd]\<rparr>) \<and>
    new_executor w req = None"
proof -
  have cl: "k8sClient c \<noteq> None \<and> restConfig c \<noteq> None"
  proof (rule ccontr)
    assume "\<not> (k8sClient c \<noteq> None \<and> restConfig c \<noteq> None)"
    then have "k8sClient c = None \<or> restConfig c = None" by blast
    from checkExecCommand_no_client [OF this] assms show False by simp
  qed
  from cl obtain kc rc where kc: "k8sClient c = Some kc" and rc: "restConfig c = Some rc"
    by auto
  obtain first rest where cs: "Containers (Spec pod) = first # rest"
  proof (cases "Containers (Spec pod)")
    case Nil
    with assms have False by (simp add: checkExecCommand_def kc rc)
    then show ?thesis ..
  next
    case (Cons a list)
    then show ?thesis using that by blast
  qed
  define r where "r = \<lparr>exec_namespace = Namespace_of pod, exec_pod = Name pod,
           exec_container = (if name = [] then ContainerName_of first else name),
           exec_command = [''sh'', ''-c'', cmd]\<rparr>"
  have ne: "new_executor w r = None"
  proof (cases "new_executor w r")
    case None then show ?thesis .
  next
    case (Some err)
    with cs assms have False by (simp add: checkExecCommand_def r_def kc rc)
    then show ?thesis ..
  qed
  have "checkExecCommand w c pod cmd name expected =
      (Inr (exec_passes expected (stream w r)), [ExecStream r])"
    using cl cs ne by (intro checkExecCommand_runs [where first = first and rest = rest]) (simp_all add: r_def)
  with assms have "req = r" by simp
  with cl cs ne show ?thesis by (simp add: r_def)
qed

subsection \<open>Auxiliary facts\<close>

lemma ready_conditions_iff:
  "ready_conditions cs \<longleftrightarrow> (\<forall>cond \<in> set cs. Type cond = PodReady \<longrightarrow> Status cond = ConditionTrue)"
  by (induction cs) auto

lemma status_containers_iff:
  "status_containers cs \<longleftrightarrow> (\<forall>s \<in> set cs. Ready s \<and> Waiting (State s) = None)"
  by (induction cs) auto


lemma checkHTTPHealth_statuses [simp]:
  "checkHTTPHealth w c (pod\<lparr>PStatus := (PStatus pod)\<lparr>ContainerStatuses := cs\<rparr>\<rparr>) u
     = checkHTTPHealth w c pod u"
  by (simp add: checkHTTPHealth_def)

lemma checkTCPPort_statuses [simp]:
  "checkTCPPort w c (pod\<lparr>PStatus := (PStatus pod)\<lparr>ContainerStatuses := cs\<rparr>\<rparr>) p
     = checkTCPPort w c pod p"
  by (simp add: checkTCPPort_def)

lemma checkExecCommand_statuses [simp]:
  "checkExecCommand w c (pod\<lparr>PStatus := (PStatus pod)\<lparr>ContainerStatuses := cs\<rparr>\<rparr>) cmd n e
     = checkExecCommand w c pod cmd n e"
  by (simp add: checkExecCommand_def split: list.splits)

lemma exec_layer_statuses [simp]:
  "exec_layer w c (pod\<lparr>PStatus := (PStatus pod)\<lparr>ContainerStatuses := cs\<rparr>\<rparr>) opts
     = exec_layer w c pod opts"
  by (simp add: exec_layer_def)

lemma tcp_layer_statuses [simp]:
  "tcp_layer w c (pod\<lparr>PStatus := (PStatus pod)\<lparr>ContainerStatuses := cs\<rparr>\<rparr>) opts
     = tcp_layer w c pod opts"
  by (simp add: tcp_layer_def split: prod.splits sum.splits)

lemma http_layer_statuses:
  "http_layer w c (pod\<lparr>PStatus := (PStatus pod)\<lparr>ContainerStatuses := cs\<rparr>\<rparr>) opts
     = http_layer w c pod opts"
  by (simp add: http_layer_def split: prod.splits sum.splits)

lemma status_layer_fails:
  assumes "Phase (PStatus pod) \<noteq> PodRunning \<or>
    (\<exists>cond \<in> set (Conditions (PStatus pod)). Type cond = PodReady \<and> Status cond \<noteq> ConditionTrue)"
  shows "IsPodHealthy w c pod opts = (Inr False, [])"
  using assms by (auto simp: IsPodHealthy_def ready_conditions_iff)

lemma status_layer_passes:
  assumes "Phase (PStatus pod) = PodRunning"
    and "\<forall>cond \<in> set (Conditions (PStatus pod)). Type cond = PodReady \<longrightarrow> Status cond = ConditionTrue"
  shows "IsPodHealthy w c pod opts = http_layer w c pod opts"
  using assms by (simp add: IsPodHealthy_def ready_conditions_iff)

subsection \<open>The status layer\<close>

text \<open>
  C1 (as amended). \<open>IsPodHealthy\<close> answers unhealthy, with no error and without any
  external call, whenever the phase is not \<open>Running\<close> or the conditions hold a \<open>Ready\<close>
  entry whose status is not \<open>True\<close>. The container statuses play no part in the verdict:
  replacing them leaves the result and the trace of \<open>IsPodHealthy\<close> unchanged.
\<close>

theorem C1_amended:
  "(Phase (PStatus pod) \<noteq> PodRunning \<or>
    (\<exists>cond \<in> set (Conditions (PStatus pod)). Type cond = PodReady \<and> Status cond \<noteq> ConditionTrue)
    \<longrightarrow> IsPodHealthy w c pod opts = (Inr False, []))
   \<and> IsPodHealthy w c (pod\<lparr>PStatus := (PStatus pod)\<lparr>ContainerStatuses := cs\<rparr>\<rparr>) opts
       = IsPodHealthy w c pod opts"
proof
  show "Phase (PStatus pod) \<noteq> PodRunning \<or>
    (\<exists>cond \<in> set (Conditions (PStatus pod)). Type cond = PodReady \<and> Status cond \<noteq> ConditionTrue)
    \<longrightarrow> IsPodHealthy w c pod opts = (Inr False, [])"
    using status_layer_fails by blast
  show "IsPodHealthy w c (pod\<lparr>PStatus := (PStatus pod)\<lparr>ContainerStatuses := cs\<rparr>\<rparr>) opts
       = IsPodHealthy w c pod opts"
    by (simp add: IsPodHealthy_def http_layer_statuses)
qed

theorem C1_amended_witness:
  "Phase (PStatus pending_pod) \<noteq> PodRunning \<and>
   IsPodHealthy quiet_world (NewChecker (5 * Second)) pending_pod all_options = (Inr False, [])"
  using C1_amended [of pending_pod quiet_world "NewChecker (5 * Second)" all_options]
  by (simp add: pending_pod_def)

text \<open>
  The claim as first stated also counts a container reporting \<open>ready=false\<close> or a waiting
  container as unhealthy. \<open>IsPodHealthy\<close> does not read the container statuses (only
  \<open>CheckPodStatus\<close> does, and \<open>Reconcile\<close> uses its answer for a log line): a running,
  ready pod whose only container is not ready and waiting is healthy.
\<close>

theorem C1_counterexample:
  "Phase (PStatus unready_container_pod) = PodRunning \<and>
   ContainerStatuses (PStatus unready_container_pod) =
     [\<lparr>Ready = False, State = \<lparr>Waiting = Some (ContainerStateWaiting ''CrashLoopBackOff'')\<rparr>\<rparr>] \<and>
   \<not> CheckPodStatus (NewChecker (5 * Second)) unready_container_pod \<and>
   IsPodHealthy quiet_world (NewChecker (5 * Second)) unready_container_pod no_options = (Inr True, [])"
  by (simp add: unready_container_pod_def demo_pod_def no_options_def IsPodHealthy_def
      http_layer_def tcp_layer_def exec_layer_def CheckPodStatus_def)

subsection \<open>Order of the layers and short-circuit\<close>

lemma layers_append [simp]: "layers (s @ t) = layers s @ layers t"
  by (induction s) (auto split: option.splits)

lemma checkHTTPHealth_layers:
  "layers (snd (checkHTTPHealth w c pod u)) = [] \<or> layers (snd (checkHTTPHealth w c pod u)) = [HTTPLayer]"
  by (simp add: checkHTTPHealth_def Let_def split: option.splits http_result.splits)

lemma checkTCPPort_layers:
  "layers (snd (checkTCPPort w c pod p)) = [] \<or> layers (snd (checkTCPPort w c pod p)) = [TCPLayer]"
  by (simp add: checkTCPPort_def Let_def)

lemma checkExecCommand_trace:
  "snd (checkExecCommand w c pod cmd name expected) = [] \<or>
   (\<exists>req. snd (checkExecCommand w c pod cmd name expected) = [ExecStream req])"
proof (cases "k8sClient c = None \<or> restConfig c = None")
  case True
  then show ?thesis by (simp add: checkExecCommand_no_client)
next
  case False
  then have cl: "k8sClient c \<noteq> None" "restConfig c \<noteq> None" by simp_all
  show ?thesis
  proof (cases "Containers (Spec pod)")
    case Nil
    with False show ?thesis by (simp add: checkExecCommand_def)
  next
    case (Cons first rest)
    define r where "r = \<lparr>exec_namespace = Namespace_of pod, exec_pod = Name pod,
           exec_container = (if name = [] then ContainerName_of first else name),
           exec_command = [''sh'', ''-c'', cmd]\<rparr>"
    show ?thesis
    proof (cases "new_executor w r")
      case (Some err)
      with False Cons show ?thesis by (simp add: checkExecCommand_def r_def)
    next
      case None
      from checkExecCommand_runs [OF cl Cons r_def None] show ?thesis by simp
    qed
  qed
qed

lemma checkExecCommand_layers:
  "layers (snd (checkExecCommand w c pod cmd n e)) = [] \<or>
   layers (snd (checkExecCommand w c pod cmd n e)) = [ExecLayer]"
  using checkExecCommand_trace [of w c pod cmd n e] by auto

lemma exec_layer_layers:
  "layers (snd (exec_layer w c pod opts)) \<in> {[], [ExecLayer]}"
  using checkExecCommand_layers [of w c pod "ExecCommand opts" "ContainerName opts" "ExpectedOutput opts"]
  by (auto simp: exec_layer_def split: prod.splits sum.splits)

lemma tcp_layer_layers:
  "layers (snd (tcp_layer w c pod opts)) \<in> {[], [ExecLayer], [TCPLayer], [TCPLayer, ExecLayer]}"
  using checkTCPPort_layers [of w c pod "TCPPort opts"] exec_layer_layers [of w c pod opts]
  by (auto simp: tcp_layer_def split: prod.splits sum.splits)

lemma http_layer_layers:
  "layers (snd (http_layer w c pod opts)) \<in>
     {[], [ExecLayer], [TCPLayer], [TCPLayer, ExecLayer],
      [HTTPLayer], [HTTPLayer, ExecLayer], [HTTPLayer, TCPLayer], [HTTPLayer, TCPLayer, ExecLayer]}"
  using checkHTTPHealth_layers [of w c pod "HTTPCheckURL opts"] tcp_layer_layers [of w c pod opts]
  by (auto simp: http_layer_def split: prod.splits sum.splits)

lemma http_layer_order:
  "subseq (layers (snd (http_layer w c pod opts))) [HTTPLayer, TCPLayer, ExecLayer]"
  using http_layer_layers [of w c pod opts] by auto

lemma IsPodHealthy_order:
  "subseq (layers (snd (IsPodHealthy w c pod opts))) [HTTPLayer, TCPLayer, ExecLayer]"
  using http_layer_order [of w c pod opts] by (simp add: IsPodHealthy_def)

lemma http_layer_short_circuit:
  assumes "HTTPCheckURL opts \<noteq> []"
    and "fst (checkHTTPHealth w c pod (HTTPCheckURL opts)) \<noteq> Inr True"
  shows "fst (http_layer w c pod opts) \<noteq> Inr True \<and>
         snd (http_layer w c pod opts) = snd (checkHTTPHealth w c pod (HTTPCheckURL opts))"
  using assms by (auto simp: http_layer_def split: prod.splits sum.splits)

lemma tcp_layer_short_circuit:
  assumes "TCPPort opts > 0"
    and "fst (checkTCPPort w c pod (TCPPort opts)) \<noteq> Inr True"
  shows "fst (tcp_layer w c pod opts) \<noteq> Inr True \<and>
         snd (tcp_layer w c pod opts) = snd (checkTCPPort w c pod (TCPPort opts))"
  using assms by (auto simp: tcp_layer_def split: prod.splits sum.splits)

lemma http_layer_passed:
  assumes "HTTPCheckURL opts = [] \<or> fst (checkHTTPHealth w c pod (HTTPCheckURL opts)) = Inr True"
  shows "fst (http_layer w c pod opts) = fst (tcp_layer w c pod opts) \<and>
         layers (snd (http_layer w c pod opts)) =
           (if HTTPCheckURL opts = [] then [] else layers (snd (checkHTTPHealth w c pod (HTTPCheckURL opts))))
           @ layers (snd (tcp_layer w c pod opts))"
  using assms by (auto simp: http_layer_def split: prod.splits sum.splits)

lemma checkHTTPHealth_verdict_trace:
  assumes "fst (checkHTTPHealth w c pod u) = Inr b"
  shows "snd (checkHTTPHealth w c pod u) = [HTTPGet (http_url (PodIP (PStatus pod)) u)]"
proof (cases "PodIP (PStatus pod) = []")
  case True
  with assms show ?thesis by (simp add: checkHTTPHealth_def)
next
  case False
  show ?thesis
  proof (cases "new_request w (http_url (PodIP (PStatus pod)) u)")
    case (Some err)
    with False assms show ?thesis by (simp add: checkHTTPHealth_def)
  next
    case None
    with False show ?thesis
      by (cases "http_do w (http_url (PodIP (PStatus pod)) u)") (simp_all add: checkHTTPHealth_def)
  qed
qed

lemma checkTCPPort_verdict_trace:
  assumes "fst (checkTCPPort w c pod p) = Inr b"
  shows "snd (checkTCPPort w c pod p) = [TCPDial (tcp_address (PodIP (PStatus pod)) p)]"
  using assms by (cases "PodIP (PStatus pod) = []") (simp_all add: checkTCPPort_def Let_def)

lemma checkExecCommand_verdict_trace:
  assumes "fst (checkExecCommand w c pod cmd name expected) = Inr b"
  shows "\<exists>req. snd (checkExecCommand w c pod cmd name expected) = [ExecStream req]"
proof (cases "k8sClient c = None \<or> restConfig c = None")
  case True
  from checkExecCommand_no_client [OF True] assms show ?thesis by simp
next
  case False
  then have cl: "k8sClient c \<noteq> None" "restConfig c \<noteq> None" by simp_all
  then obtain kc rc where kc: "k8sClient c = Some kc" and rc: "restConfig c = Some rc"
    by auto
  show ?thesis
  proof (cases "Containers (Spec pod)")
    case Nil
    with assms show ?thesis by (simp add: checkExecCommand_def kc rc)
  next
    case (Cons first rest)
    define r where "r = \<lparr>exec_namespace = Namespace_of pod, exec_pod = Name pod,
           exec_container = (if name = [] then ContainerName_of first else name),
           exec_command = [''sh'', ''-c'', cmd]\<rparr>"
    show ?thesis
    proof (cases "new_executor w r")
      case (Some err)
      with Cons assms show ?thesis by (simp add: checkExecCommand_def r_def kc rc)
    next
      case None
      from checkExecCommand_runs [OF cl Cons r_def None] show ?thesis by simp
    qed
  qed
qed

lemma exec_layer_trace:
  "snd (exec_layer w c pod opts) =
     (if ExecCommand opts \<noteq> []
      then snd (checkExecCommand w c pod (ExecCommand opts) (ContainerName opts) (ExpectedOutput opts))
      else [])"
  by (simp add: exec_layer_def split: prod.splits sum.splits)

lemma tcp_layer_trace:
  "snd (tcp_layer w c pod opts) =
     (if TCPPort opts > 0 then snd (checkTCPPort w c pod (TCPPort opts)) else []) @
     (if TCPPort opts \<le> 0 \<or> fst (checkTCPPort w c pod (TCPPort opts)) = Inr True
      then snd (exec_layer w c pod opts) else [])"
  by (auto simp: tcp_layer_def split: prod.splits sum.splits)

lemma http_layer_trace:
  "snd (http_layer w c pod opts) =
     (if HTTPCheckURL opts \<noteq> [] then snd (checkHTTPHealth w c pod (HTTPCheckURL opts)) else []) @
     (if HTTPCheckURL opts = [] \<or> fst (checkHTTPHealth w c pod (HTTPCheckURL opts)) = Inr True
      then snd (tcp_layer w c pod opts) else [])"
  by (auto simp: http_layer_def split: prod.splits sum.splits)

lemma tcp_layer_verdict:
  assumes "TCPPort opts \<le> 0 \<or> fst (checkTCPPort w c pod (TCPPort opts)) = Inr True"
  shows "fst (tcp_layer w c pod opts) = fst (exec_layer w c pod opts)"
  using assms by (auto simp: tcp_layer_def split: prod.splits sum.splits)

lemma http_layer_verdict:
  assumes "HTTPCheckURL opts = [] \<or> fst (checkHTTPHealth w c pod (HTTPCheckURL opts)) = Inr True"
  shows "fst (http_layer w c pod opts) = fst (tcp_layer w c pod opts)"
  using assms by (auto simp: http_layer_def split: prod.splits sum.splits)

lemma exec_layer_verdict:
  assumes "ExecCommand opts \<noteq> []"
    and "fst (checkExecCommand w c pod (ExecCommand opts) (ContainerName opts) (ExpectedOutput opts)) = Inr b"
  shows "fst (exec_layer w c pod opts) = Inr b"
  using assms by (auto simp: exec_layer_def split: prod.splits sum.splits)

lemma IsPodHealthy_trace:
  assumes "Phase (PStatus pod) = PodRunning" "ready_conditions (Conditions (PStatus pod))"
  shows "snd (IsPodHealthy w c pod opts) =
      (if HTTPCheckURL opts \<noteq> [] then snd (checkHTTPHealth w c pod (HTTPCheckURL opts)) else []) @
      (if (HTTPCheckURL opts = [] \<or> fst (checkHTTPHealth w c pod (HTTPCheckURL opts)) = Inr True) \<and>
          TCPPort opts > 0
       then snd (checkTCPPort w c pod (TCPPort opts)) else []) @
      (if (HTTPCheckURL opts = [] \<or> fst (checkHTTPHealth w c pod (HTTPCheckURL opts)) = Inr True) \<and>
          (TCPPort opts \<le> 0 \<or> fst (checkTCPPort w c pod (TCPPort opts)) = Inr True) \<and>
          ExecCommand opts \<noteq> []
       then snd (checkExecCommand w c pod (ExecCommand opts) (ContainerName opts) (ExpectedOutput opts))
       else [])"
proof -
  have "IsPodHealthy w c pod opts = http_layer w c pod opts"
    using assms by (simp add: IsPodHealthy_def)
  then show ?thesis
    by (simp add: http_layer_trace tcp_layer_trace exec_layer_trace)
qed

lemma all_layers_run:
  assumes "Phase (PStatus pod) = PodRunning" "ready_conditions (Conditions (PStatus pod))"
    and "HTTPCheckURL opts \<noteq> []" "fst (checkHTTPHealth w c pod (HTTPCheckURL opts)) = Inr True"
    and "TCPPort opts > 0" "fst (checkTCPPort w c pod (TCPPort opts)) = Inr True"
    and "ExecCommand opts \<noteq> []"
    and "fst (checkExecCommand w c pod (ExecCommand opts) (ContainerName opts) (ExpectedOutput opts)) = Inr b"
  shows "fst (IsPodHealthy w c pod opts) = Inr b"
    and "layers (snd (IsPodHealthy w c pod opts)) = [HTTPLayer, TCPLayer, ExecLayer]"
proof -
  have e: "IsPodHealthy w c pod opts = http_layer w c pod opts"
    using assms(1,2) by (simp add: IsPodHealthy_def)
  show "fst (IsPodHealthy w c pod opts) = Inr b"
    using e assms(4,6) exec_layer_verdict [OF assms(7,8)]
    by (simp add: http_layer_verdict tcp_layer_verdict)
  obtain req where r: "snd (checkExecCommand w c pod (ExecCommand opts) (ContainerName opts)
      (ExpectedOutput opts)) = [ExecStream req]"
    using checkExecCommand_verdict_trace [OF assms(8)] by blast
  show "layers (snd (IsPodHealthy w c pod opts)) = [HTTPLayer, TCPLayer, ExecLayer]"
    using assms(3-7) r checkHTTPHealth_verdict_trace [OF assms(4)] checkTCPPort_verdict_trace [OF assms(6)]
    by (simp add: IsPodHealthy_trace [OF assms(1,2)])
qed

text \<open>
  C3. The external calls of \<open>IsPodHealthy\<close> run through the layers in the order HTTP, TCP,
  exec, each at most once, after the status layer. When the status layer fails, nothing
  is called. When the HTTP layer is configured and does not pass (unhealthy or error),
  the verdict is not healthy and neither the TCP nor the exec check is called. When the
  HTTP layer passes or is not configured and the TCP layer does not pass, the exec check
  is not called. The layers do run: once the status layer passes, the trace is exactly
  the calls of the HTTP check if configured, followed by those of the TCP check if it is
  configured and reached, followed by those of the exec check if it is configured and
  reached; a check that returns a verdict has made its call; and when all three layers
  are configured, HTTP and TCP pass and the exec check returns a verdict, that verdict
  is the result and the layers run are HTTP, TCP, exec, in this order.
\<close>

theorem C3:
  "subseq (layers (snd (IsPodHealthy w c pod opts))) [HTTPLayer, TCPLayer, ExecLayer]
   \<and> (Phase (PStatus pod) \<noteq> PodRunning \<or>
      (\<exists>cond \<in> set (Conditions (PStatus pod)). Type cond = PodReady \<and> Status cond \<noteq> ConditionTrue)
      \<longrightarrow> fst (IsPodHealthy w c pod opts) = Inr False \<and> snd (IsPodHealthy w c pod opts) = [])
   \<and> (Phase (PStatus pod) = PodRunning \<and> ready_conditions (Conditions (PStatus pod)) \<and>
      HTTPCheckURL opts \<noteq> [] \<and> fst (checkHTTPHealth w c pod (HTTPCheckURL opts)) \<noteq> Inr True
      \<longrightarrow> fst (IsPodHealthy w c pod opts) \<noteq> Inr True \<and>
          TCPLayer \<notin> set (layers (snd (IsPodHealthy w c pod opts))) \<and>
          ExecLayer \<notin> set (layers (snd (IsPodHealthy w c pod opts))))
   \<and> (Phase (PStatus pod) = PodRunning \<and> ready_conditions (Conditions (PStatus pod)) \<and>
      (HTTPCheckURL opts = [] \<or> fst (checkHTTPHealth w c pod (HTTPCheckURL opts)) = Inr True) \<and>
      TCPPort opts > 0 \<and> fst (checkTCPPort w c pod (TCPPort opts)) \<noteq> Inr True
      \<longrightarrow> fst (IsPodHealthy w c pod opts) \<noteq> Inr True \<and>
          ExecLayer \<notin> set (layers (snd (IsPodHealthy w c pod opts))))
   \<and> (Phase (PStatus pod) = PodRunning \<and> ready_conditions (Conditions (PStatus pod))
      \<longrightarrow> snd (IsPodHealthy w c pod opts) =
        (if HTTPCheckURL opts \<noteq> [] then snd (checkHTTPHealth w c pod (HTTPCheckURL opts)) else []) @
        (if (HTTPCheckURL opts = [] \<or> fst (checkHTTPHealth w c pod (HTTPCheckURL opts)) = Inr True) \<and>
            TCPPort opts > 0
         then snd (checkTCPPort w c pod (TCPPort opts)) else []) @
        (if (HTTPCheckURL opts = [] \<or> fst (checkHTTPHealth w c pod (HTTPCheckURL opts)) = Inr True) \<and>
            (TCPPort opts \<le> 0 \<or> fst (checkTCPPort w c pod (TCPPort opts)) = Inr True) \<and>
            ExecCommand opts \<noteq> []
         then snd (checkExecCommand w c pod (ExecCommand opts) (ContainerName opts) (ExpectedOutput opts))
         else []))
   \<and> (\<forall>b. fst (checkHTTPHealth w c pod (HTTPCheckURL opts)) = Inr b
      \<longrightarrow> snd (checkHTTPHealth w c pod (HTTPCheckURL opts)) =
            [HTTPGet (http_url (PodIP (PStatus pod)) (HTTPCheckURL opts))])
   \<and> (\<forall>b. fst (checkTCPPort w c pod (TCPPort opts)) = Inr b
      \<longrightarrow> snd (checkTCPPort w c pod (TCPPort opts)) =
            [TCPDial (tcp_address (PodIP (PStatus pod)) (TCPPort opts))])
   \<and> (\<forall>b. fst (checkExecCommand w c pod (ExecCommand opts) (ContainerName opts) (ExpectedOutput opts)) = Inr b
      \<longrightarrow> (\<exists>req. snd (checkExecCommand w c pod (ExecCommand opts) (ContainerName opts)
                        (ExpectedOutput opts)) = [ExecStream req]))
   \<and> (\<forall>b. Phase (PStatus pod) = PodRunning \<and> ready_conditions (Conditions (PStatus pod)) \<and>
        HTTPCheckURL opts \<noteq> [] \<and> fst (checkHTTPHealth w c pod (HTTPCheckURL opts)) = Inr True \<and>
        TCPPort opts > 0 \<and> fst (checkTCPPort w c pod (TCPPort opts)) = Inr True \<and>
        ExecCommand opts \<noteq> [] \<and>
        fst (checkExecCommand w c pod (ExecCommand opts) (ContainerName opts) (ExpectedOutput opts)) = Inr b
      \<longrightarrow> fst (IsPodHealthy w c pod opts) = Inr b \<and>
          layers (snd (IsPodHealthy w c pod opts)) = [HTTPLayer, TCPLayer, ExecLayer])"
proof (intro conjI impI allI)
  show "subseq (layers (snd (IsPodHealthy w c pod opts))) [HTTPLayer, TCPLayer, ExecLayer]"
    by (rule IsPodHealthy_order)
next
  assume "Phase (PStatus pod) \<noteq> PodRunning \<or>
      (\<exists>cond \<in> set (Conditions (PStatus pod)). Type cond = PodReady \<and> Status cond \<noteq> ConditionTrue)"
  then have "IsPodHealthy w c pod opts = (Inr False, [])" by (rule status_layer_fails)
  then show "fst (IsPodHealthy w c pod opts) = Inr False" "snd (IsPodHealthy w c pod opts) = []"
    by simp_all
next
  assume a: "Phase (PStatus pod) = PodRunning \<and> ready_conditions (Conditions (PStatus pod)) \<and>
      HTTPCheckURL opts \<noteq> [] \<and> fst (checkHTTPHealth w c pod (HTTPCheckURL opts)) \<noteq> Inr True"
  then have eq: "IsPodHealthy w c pod opts = http_layer w c pod opts"
    by (simp add: IsPodHealthy_def)
  from a have sc: "fst (http_layer w c pod opts) \<noteq> Inr True \<and>
         snd (http_layer w c pod opts) = snd (checkHTTPHealth w c pod (HTTPCheckURL opts))"
    by (intro http_layer_short_circuit) simp_all
  show "fst (IsPodHealthy w c pod opts) \<noteq> Inr True" using eq sc by simp
  show "TCPLayer \<notin> set (layers (snd (IsPodHealthy w c pod opts)))"
    using eq sc checkHTTPHealth_layers [of w c pod "HTTPCheckURL opts"] by auto
  show "ExecLayer \<notin> set (layers (snd (IsPodHealthy w c pod opts)))"
    using eq sc checkHTTPHealth_layers [of w c pod "HTTPCheckURL opts"] by auto
next
  assume a: "Phase (PStatus pod) = PodRunning \<and> ready_conditions (Conditions (PStatus pod)) \<and>
      (HTTPCheckURL opts = [] \<or> fst (checkHTTPHealth w c pod (HTTPCheckURL opts)) = Inr True) \<and>
      TCPPort opts > 0 \<and> fst (checkTCPPort w c pod (TCPPort opts)) \<noteq> Inr True"
  then have eq: "IsPodHealthy w c pod opts = http_layer w c pod opts"
    by (simp add: IsPodHealthy_def)
  from a have hp: "fst (http_layer w c pod opts) = fst (tcp_layer w c pod opts) \<and>
         layers (snd (http_layer w c pod opts)) =
           (if HTTPCheckURL opts = [] then [] else layers (snd (checkHTTPHealth w c pod (HTTPCheckURL opts))))
           @ layers (snd (tcp_layer w c pod opts))"
    by (intro http_layer_passed) simp
  from a have sc: "fst (tcp_layer w c pod opts) \<noteq> Inr True \<and>
         snd (tcp_layer w c pod opts) = snd (checkTCPPort w c pod (TCPPort opts))"
    by (intro tcp_layer_short_circuit) simp_all
  show "fst (IsPodHealthy w c pod opts) \<noteq> Inr True" using eq hp sc by simp
  show "ExecLayer \<notin> set (layers (snd (IsPodHealthy w c pod opts)))"
    using eq hp sc checkHTTPHealth_layers [of w c pod "HTTPCheckURL opts"]
      checkTCPPort_layers [of w c pod "TCPPort opts"] by auto
next
  assume "Phase (PStatus pod) = PodRunning \<and> ready_conditions (Conditions (PStatus pod))"
  then show "snd (IsPodHealthy w c pod opts) =
        (if HTTPCheckURL opts \<noteq> [] then snd (checkHTTPHealth w c pod (HTTPCheckURL opts)) else []) @
        (if (HTTPCheckURL opts = [] \<or> fst (checkHTTPHealth w c pod (HTTPCheckURL opts)) = Inr True) \<and>
            TCPPort opts > 0
         then snd (checkTCPPort w c pod (TCPPort opts)) else []) @
        (if (HTTPCheckURL opts = [] \<or> fst (checkHTTPHealth w c pod (HTTPCheckURL opts)) = Inr True) \<and>
            (TCPPort opts \<le> 0 \<or> fst (checkTCPPort w c pod (TCPPort opts)) = Inr True) \<and>
            ExecCommand opts \<noteq> []
         then snd (checkExecCommand w c pod (ExecCommand opts) (ContainerName opts) (ExpectedOutput opts))
         else [])"
    using IsPodHealthy_trace [of pod w c opts] by blast
next
  fix b
  assume "fst (checkHTTPHealth w c pod (HTTPCheckURL opts)) = Inr b"
  then show "snd (checkHTTPHealth w c pod (HTTPCheckURL opts)) =
            [HTTPGet (http_url (PodIP (PStatus pod)) (HTTPCheckURL opts))]"
    by (rule checkHTTPHealth_verdict_trace)
next
  fix b
  assume "fst (checkTCPPort w c pod (TCPPort opts)) = Inr b"
  then show "snd (checkTCPPort w c pod (TCPPort opts)) =
            [TCPDial (tcp_address (PodIP (PStatus pod)) (TCPPort opts))]"
    by (rule checkTCPPort_verdict_trace)
next
  fix b
  assume "fst (checkExecCommand w c pod (ExecCommand opts) (ContainerName opts) (ExpectedOutput opts)) = Inr b"
  then show "\<exists>req. snd (checkExecCommand w c pod (ExecCommand opts) (ContainerName opts)
                        (ExpectedOutput opts)) = [ExecStream req]"
    by (rule checkExecCommand_verdict_trace)
next
  fix b
  assume a: "Phase (PStatus pod) = PodRunning \<and> ready_conditions (Conditions (PStatus pod)) \<and>
        HTTPCheckURL opts \<noteq> [] \<and> fst (checkHTTPHealth w c pod (HTTPCheckURL opts)) = Inr True \<and>
        TCPPort opts > 0 \<and> fst (checkTCPPort w c pod (TCPPort opts)) = Inr True \<and>
        ExecCommand opts \<noteq> [] \<and>
        fst (checkExecCommand w c pod (ExecCommand opts) (ContainerName opts) (ExpectedOutput opts)) = Inr b"
  then show "fst (IsPodHealthy w c pod opts) = Inr b"
    using all_layers_run(1) [of pod opts w c b] by blast
  from a show "layers (snd (IsPodHealthy w c pod opts)) = [HTTPLayer, TCPLayer, ExecLayer]"
    using all_layers_run(2) [of pod opts w c b] by blast
qed



theorem C3_witness:
  "Phase (PStatus pending_pod) \<noteq> PodRunning \<and>
   snd (IsPodHealthy quiet_world exec_checker pending_pod all_options) = [] \<and>
   fst (checkHTTPHealth http_down_world exec_checker demo_pod (HTTPCheckURL all_options)) = Inr False \<and>
   fst (IsPodHealthy http_down_world exec_checker demo_pod all_options) \<noteq> Inr True \<and>
   TCPLayer \<notin> set (layers (snd (IsPodHealthy http_down_world exec_checker demo_pod all_options))) \<and>
   ExecLayer \<notin> set (layers (snd (IsPodHealthy http_down_world exec_checker demo_pod all_options))) \<and>
   fst (checkHTTPHealth tcp_closed_world exec_checker demo_pod (HTTPCheckURL all_options)) = Inr True \<and>
   fst (checkTCPPort tcp_closed_world exec_checker demo_pod (TCPPort all_options)) = Inr False \<and>
   fst (IsPodHealthy tcp_closed_world exec_checker demo_pod all_options) \<noteq> Inr True \<and>
   ExecLayer \<notin> set (layers (snd (IsPodHealthy tcp_closed_world exec_checker demo_pod all_options))) \<and>
   layers (snd (IsPodHealthy http_down_world exec_checker demo_pod all_options)) = [HTTPLayer] \<and>
   layers (snd (IsPodHealthy tcp_closed_world exec_checker demo_pod all_options)) = [HTTPLayer, TCPLayer] \<and>
   fst (IsPodHealthy quiet_world exec_checker demo_pod all_options) = Inr True \<and>
   layers (snd (IsPodHealthy quiet_world exec_checker demo_pod all_options)) =
     [HTTPLayer, TCPLayer, ExecLayer]"
proof -
  let ?exec = "\<lambda>w. checkExecCommand w exec_checker demo_pod (ExecCommand all_options)
      (ContainerName all_options) (ExpectedOutput all_options)"
  have h1: "Phase (PStatus pending_pod) \<noteq> PodRunning"
    by (simp add: pending_pod_def)
  have h2: "Phase (PStatus demo_pod) = PodRunning \<and> ready_conditions (Conditions (PStatus demo_pod))"
    by (simp add: demo_pod_def)
  have cfg: "HTTPCheckURL all_options \<noteq> []" "0 < TCPPort all_options" "ExecCommand all_options \<noteq> []"
    by (simp_all add: all_options_def)
  have h3: "fst (checkHTTPHealth http_down_world exec_checker demo_pod (HTTPCheckURL all_options)) = Inr False"
    by (simp add: checkHTTPHealth_def http_down_world_def quiet_world_def demo_pod_def)
  have h4: "fst (checkHTTPHealth tcp_closed_world exec_checker demo_pod (HTTPCheckURL all_options)) = Inr True"
    by (simp add: checkHTTPHealth_def tcp_closed_world_def quiet_world_def demo_pod_def)
  have h5: "fst (checkTCPPort tcp_closed_world exec_checker demo_pod (TCPPort all_options)) = Inr False"
    by (simp add: checkTCPPort_def tcp_closed_world_def quiet_world_def demo_pod_def)
  have h6: "fst (checkHTTPHealth quiet_world exec_checker demo_pod (HTTPCheckURL all_options)) = Inr True"
    by (simp add: checkHTTPHealth_def quiet_world_def demo_pod_def)
  have h7: "fst (checkTCPPort quiet_world exec_checker demo_pod (TCPPort all_options)) = Inr True"
    by (simp add: checkTCPPort_def quiet_world_def demo_pod_def)
  have h8: "fst (?exec quiet_world) = Inr True"
    by (simp add: checkExecCommand_def quiet_world_def demo_pod_def all_options_def
        exec_checker_def SetKubernetesClient_def NewChecker_def)
  have h3': "fst (checkHTTPHealth http_down_world exec_checker demo_pod (HTTPCheckURL all_options)) \<noteq> Inr True"
    by (simp add: h3)
  have h5': "fst (checkTCPPort tcp_closed_world exec_checker demo_pod (TCPPort all_options)) \<noteq> Inr True"
    by (simp add: h5)
  note pending = C3 [of quiet_world exec_checker pending_pod all_options]
  note down = C3 [of http_down_world exec_checker demo_pod all_options]
  note closed = C3 [of tcp_closed_world exec_checker demo_pod all_options]
  note quiet = C3 [of quiet_world exec_checker demo_pod all_options]
  have a: "snd (IsPodHealthy quiet_world exec_checker pending_pod all_options) = []"
    using pending h1 by blast
  have b: "fst (IsPodHealthy http_down_world exec_checker demo_pod all_options) \<noteq> Inr True \<and>
      TCPLayer \<notin> set (layers (snd (IsPodHealthy http_down_world exec_checker demo_pod all_options))) \<and>
      ExecLayer \<notin> set (layers (snd (IsPodHealthy http_down_world exec_checker demo_pod all_options)))"
    using down h2 cfg(1) h3' by blast
  have c: "fst (IsPodHealthy tcp_closed_world exec_checker demo_pod all_options) \<noteq> Inr True \<and>
      ExecLayer \<notin> set (layers (snd (IsPodHealthy tcp_closed_world exec_checker demo_pod all_options)))"
    using closed h2 cfg(2) h4 h5' by blast
  have d1: "snd (IsPodHealthy http_down_world exec_checker demo_pod all_options) =
      snd (checkHTTPHealth http_down_world exec_checker demo_pod (HTTPCheckURL all_options))"
  proof -
    have "snd (IsPodHealthy http_down_world exec_checker demo_pod all_options) =
        (if HTTPCheckURL all_options \<noteq> []
         then snd (checkHTTPHealth http_down_world exec_checker demo_pod (HTTPCheckURL all_options)) else []) @
        (if (HTTPCheckURL all_options = [] \<or>
             fst (checkHTTPHealth http_down_world exec_checker demo_pod (HTTPCheckURL all_options)) = Inr True) \<and>
            TCPPort all_options > 0
         then snd (checkTCPPort http_down_world exec_checker demo_pod (TCPPort all_options)) else []) @
        (if (HTTPCheckURL all_options = [] \<or>
             fst (checkHTTPHealth http_down_world exec_checker demo_pod (HTTPCheckURL all_options)) = Inr True) \<and>
            (TCPPort all_options \<le> 0 \<or>
             fst (checkTCPPort http_down_world exec_checker demo_pod (TCPPort all_options)) = Inr True) \<and>
            ExecCommand all_options \<noteq> []
         then snd (checkExecCommand http_down_world exec_checker demo_pod (ExecCommand all_options)
                (ContainerName all_options) (ExpectedOutput all_options))
         else [])"
      using down h2 by blast
    then show ?thesis by (simp add: cfg h3)
  qed
  have d2: "snd (checkHTTPHealth http_down_world exec_checker demo_pod (HTTPCheckURL all_options)) =
      [HTTPGet (http_url (PodIP (PStatus demo_pod)) (HTTPCheckURL all_options))]"
    using down h3 by blast
  have d: "layers (snd (IsPodHealthy http_down_world exec_checker demo_pod all_options)) = [HTTPLayer]"
    by (simp add: d1 d2)
  have e1: "snd (IsPodHealthy tcp_closed_world exec_checker demo_pod all_options) =
      snd (checkHTTPHealth tcp_closed_world exec_checker demo_pod (HTTPCheckURL all_options)) @
      snd (checkTCPPort tcp_closed_world exec_checker demo_pod (TCPPort all_options))"
  proof -
    have "snd (IsPodHealthy tcp_closed_world exec_checker demo_pod all_options) =
        (if HTTPCheckURL all_options \<noteq> []
         then snd (checkHTTPHealth tcp_closed_world exec_checker demo_pod (HTTPCheckURL all_options)) else []) @
        (if (HTTPCheckURL all_options = [] \<or>
             fst (checkHTTPHealth tcp_closed_world exec_checker demo_pod (HTTPCheckURL all_options)) = Inr True) \<and>
            TCPPort all_options > 0
         then snd (checkTCPPort tcp_closed_world exec_checker demo_pod (TCPPort all_options)) else []) @
        (if (HTTPCheckURL all_options = [] \<or>
             fst (checkHTTPHealth tcp_closed_world exec_checker demo_pod (HTTPCheckURL all_options)) = Inr True) \<and>
            (TCPPort all_options \<le> 0 \<or>
             fst (checkTCPPort tcp_closed_world exec_checker demo_pod (TCPPort all_options)) = Inr True) \<and>
            ExecCommand all_options \<noteq> []
         then snd (checkExecCommand tcp_closed_world exec_checker demo_pod (ExecCommand all_options)
                (ContainerName all_options) (ExpectedOutput all_options))
         else [])"
      using closed h2 by blast
    moreover have "\<not> TCPPort all_options \<le> 0"
      using cfg(2) by simp
    ultimately show ?thesis by (simp add: cfg h4 h5)
  qed
  have e2: "snd (checkHTTPHealth tcp_closed_world exec_checker demo_pod (HTTPCheckURL all_options)) =
      [HTTPGet (http_url (PodIP (PStatus demo_pod)) (HTTPCheckURL all_options))]"
    using closed h4 by blast
  have e3: "snd (checkTCPPort tcp_closed_world exec_checker demo_pod (TCPPort all_options)) =
      [TCPDial (tcp_address (PodIP (PStatus demo_pod)) (TCPPort all_options))]"
    using closed h5 by blast
  have e: "layers (snd (IsPodHealthy tcp_closed_world exec_checker demo_pod all_options)) =
      [HTTPLayer, TCPLayer]"
    by (simp add: e1 e2 e3)
  have f: "fst (IsPodHealthy quiet_world exec_checker demo_pod all_options) = Inr True \<and>
      layers (snd (IsPodHealthy quiet_world exec_checker demo_pod all_options)) =
        [HTTPLayer, TCPLayer, ExecLayer]"
    using quiet h2 cfg h6 h7 h8 by blast
  from h1 a h3 b h4 h5 c d e f show ?thesis by simp
qed

subsection \<open>A pod without a ready condition\<close>

lemma no_optional_layers:
  assumes "HTTPCheckURL opts = []" "TCPPort opts \<le> 0" "ExecCommand opts = []"
  shows "http_layer w c pod opts = (Inr True, [])"
  using assms by (simp add: http_layer_def tcp_layer_def exec_layer_def)

lemma checkHTTPHealth_conditions [simp]:
  "checkHTTPHealth w c (pod\<lparr>PStatus := (PStatus pod)\<lparr>Conditions := cs\<rparr>\<rparr>) u
     = checkHTTPHealth w c pod u"
  by (simp add: checkHTTPHealth_def)

lemma checkTCPPort_conditions [simp]:
  "checkTCPPort w c (pod\<lparr>PStatus := (PStatus pod)\<lparr>Conditions := cs\<rparr>\<rparr>) p
     = checkTCPPort w c pod p"
  by (simp add: checkTCPPort_def)

lemma checkExecCommand_conditions [simp]:
  "checkExecCommand w c (pod\<lparr>PStatus := (PStatus pod)\<lparr>Conditions := cs\<rparr>\<rparr>) cmd n e
     = checkExecCommand w c pod cmd n e"
  by (simp add: checkExecCommand_def split: list.splits)

lemma http_layer_conditions:
  "http_layer w c (pod\<lparr>PStatus := (PStatus pod)\<lparr>Conditions := cs\<rparr>\<rparr>) opts
     = http_layer w c pod opts"
  by (simp add: http_layer_def tcp_layer_def exec_layer_def split: prod.splits sum.splits)

text \<open>
  C10. For a running pod whose conditions hold no \<open>Ready\<close> entry, the ready check passes
  and \<open>IsPodHealthy\<close> goes on to the optional layers: its result is that of the function
  from the HTTP layer on, the same as for the pod with a \<open>Ready\<close> condition of status
  \<open>True\<close>; when no optional layer is configured the pod is healthy.
\<close>

theorem C10:
  assumes "Phase (PStatus pod) = PodRunning"
    and "\<forall>cond \<in> set (Conditions (PStatus pod)). Type cond \<noteq> PodReady"
  shows "ready_conditions (Conditions (PStatus pod))
    \<and> IsPodHealthy w c pod opts = http_layer w c pod opts
    \<and> IsPodHealthy w c pod opts =
        IsPodHealthy w c
          (pod\<lparr>PStatus := (PStatus pod)\<lparr>Conditions := [\<lparr>Type = PodReady, Status = ConditionTrue\<rparr>]\<rparr>\<rparr>)
          opts
    \<and> (HTTPCheckURL opts = [] \<and> TCPPort opts \<le> 0 \<and> ExecCommand opts = []
        \<longrightarrow> IsPodHealthy w c pod opts = (Inr True, []))"
proof -
  from assms(2) have r: "ready_conditions (Conditions (PStatus pod))"
    by (simp add: ready_conditions_iff)
  with assms(1) have e: "IsPodHealthy w c pod opts = http_layer w c pod opts"
    by (simp add: IsPodHealthy_def)
  have "IsPodHealthy w c
          (pod\<lparr>PStatus := (PStatus pod)\<lparr>Conditions := [\<lparr>Type = PodReady, Status = ConditionTrue\<rparr>]\<rparr>\<rparr>)
          opts = http_layer w c pod opts"
    using assms(1) by (simp add: IsPodHealthy_def http_layer_conditions)
  with r e show ?thesis
    by (simp add: no_optional_layers)
qed

theorem C10_witness:
  "Phase (PStatus bare_pod) = PodRunning \<and>
   Conditions (PStatus bare_pod) = [\<lparr>Type = PodScheduled, Status = ConditionTrue\<rparr>] \<and>
   IsPodHealthy quiet_world checker bare_pod no_options = (Inr True, []) \<and>
   IsPodHealthy quiet_world checker bare_pod http_only =
     (Inr True, [HTTPGet ''http://10.0.0.1:8080/status/health''])"
proof -
  have h1: "Phase (PStatus bare_pod) = PodRunning"
    by (simp add: bare_pod_def demo_pod_def)
  have h2: "\<forall>cond \<in> set (Conditions (PStatus bare_pod)). Type cond \<noteq> PodReady"
    by (simp add: bare_pod_def)
  have h3: "http_layer quiet_world checker bare_pod http_only =
     (Inr True, [HTTPGet ''http://10.0.0.1:8080/status/health''])"
    by (simp add: http_layer_def tcp_layer_def exec_layer_def checkHTTPHealth_def http_url_def
        http_only_def no_options_def bare_pod_def demo_pod_def quiet_world_def)
  have h4: "Conditions (PStatus bare_pod) = [\<lparr>Type = PodScheduled, Status = ConditionTrue\<rparr>]"
    by (simp add: bare_pod_def)
  have h5: "HTTPCheckURL no_options = [] \<and> TCPPort no_options \<le> 0 \<and> ExecCommand no_options = []"
    by (simp add: no_options_def)
  have a: "IsPodHealthy quiet_world checker bare_pod no_options = (Inr True, [])"
    using C10 [OF h1 h2, of quiet_world checker no_options] h5 by blast
  have b: "IsPodHealthy quiet_world checker bare_pod http_only =
      http_layer quiet_world checker bare_pod http_only"
    using C10 [OF h1 h2, of quiet_world checker http_only] by blast
  show ?thesis
    using h1 h4 a b h3 by simp
qed

subsection \<open>The HTTP layer\<close>

lemma http_layer_no_ip:
  assumes "HTTPCheckURL opts \<noteq> []" "PodIP (PStatus pod) = []"
  shows "http_layer w c pod opts = (Inl ''http health check failed: pod IP is not available'', [])"
  using assms by (simp add: http_layer_def checkHTTPHealth_def)

lemma http_layer_bad_request:
  assumes "HTTPCheckURL opts \<noteq> []" "PodIP (PStatus pod) \<noteq> []"
    and "new_request w (http_url (PodIP (PStatus pod)) (HTTPCheckURL opts)) = Some err"
  shows "http_layer w c pod opts =
    (Inl (''http health check failed: failed to create request: '' @ err), [])"
  using assms by (simp add: http_layer_def checkHTTPHealth_def)

lemma http_layer_get:
  assumes "HTTPCheckURL opts \<noteq> []" "PodIP (PStatus pod) \<noteq> []"
    and "url = http_url (PodIP (PStatus pod)) (HTTPCheckURL opts)"
    and "new_request w url = None"
  shows "http_layer w c pod opts =
    (case http_do w url of
       TransportError \<Rightarrow> (Inr False, [HTTPGet url])
     | Response code \<Rightarrow>
         if 200 \<le> code \<and> code < 400
         then (fst (tcp_layer w c pod opts), HTTPGet url # snd (tcp_layer w c pod opts))
         else (Inr False, [HTTPGet url]))"
  using assms
  by (simp add: http_layer_def checkHTTPHealth_def split: http_result.splits prod.splits)

text \<open>
  C5 (as amended). When the status layer passes and an HTTP path is configured:
  an empty pod address aborts the evaluation with an error, and so does a URL
  \<open>http://<address>:8080<path>\<close> for which no request can be created; otherwise a GET to
  that URL is the first external call, a transport failure gives unhealthy with no
  error, a response status outside \<open>[200,400)\<close> gives unhealthy with no error, and a
  status inside it passes the layer, the evaluation going on with the TCP layer.
\<close>

theorem C5_amended:
  assumes "Phase (PStatus pod) = PodRunning"
    and "ready_conditions (Conditions (PStatus pod))"
    and "HTTPCheckURL opts \<noteq> []"
    and "url = http_url (PodIP (PStatus pod)) (HTTPCheckURL opts)"
  shows "(PodIP (PStatus pod) = [] \<longrightarrow>
            IsPodHealthy w c pod opts =
              (Inl ''http health check failed: pod IP is not available'', []))
    \<and> (\<forall>err. PodIP (PStatus pod) \<noteq> [] \<and> new_request w url = Some err \<longrightarrow>
            IsPodHealthy w c pod opts =
              (Inl (''http health check failed: failed to create request: '' @ err), []))
    \<and> (PodIP (PStatus pod) \<noteq> [] \<and> new_request w url = None \<longrightarrow>
          hd (snd (IsPodHealthy w c pod opts)) = HTTPGet url \<and>
          snd (IsPodHealthy w c pod opts) \<noteq> [] \<and>
          (http_do w url = TransportError \<longrightarrow>
             IsPodHealthy w c pod opts = (Inr False, [HTTPGet url])) \<and>
          (\<forall>code. http_do w url = Response code \<and> \<not> (200 \<le> code \<and> code < 400) \<longrightarrow>
             IsPodHealthy w c pod opts = (Inr False, [HTTPGet url])) \<and>
          (\<forall>code. http_do w url = Response code \<and> 200 \<le> code \<and> code < 400 \<longrightarrow>
             IsPodHealthy w c pod opts =
               (fst (tcp_layer w c pod opts), HTTPGet url # snd (tcp_layer w c pod opts))))"
proof -
  have e: "IsPodHealthy w c pod opts = http_layer w c pod opts"
    using assms(1,2) by (simp add: IsPodHealthy_def)
  show ?thesis
  proof (intro conjI allI impI)
    assume "PodIP (PStatus pod) = []"
    then show "IsPodHealthy w c pod opts =
        (Inl ''http health check failed: pod IP is not available'', [])"
      using e assms(3) by (simp add: http_layer_no_ip)
  next
    fix err
    assume "PodIP (PStatus pod) \<noteq> [] \<and> new_request w url = Some err"
    then show "IsPodHealthy w c pod opts =
        (Inl (''http health check failed: failed to create request: '' @ err), [])"
      using e assms(3,4) by (simp add: http_layer_bad_request)
  next
    assume a: "PodIP (PStatus pod) \<noteq> [] \<and> new_request w url = None"
    then have g: "IsPodHealthy w c pod opts =
      (case http_do w url of
         TransportError \<Rightarrow> (Inr False, [HTTPGet url])
       | Response code \<Rightarrow>
           if 200 \<le> code \<and> code < 400
           then (fst (tcp_layer w c pod opts), HTTPGet url # snd (tcp_layer w c pod opts))
           else (Inr False, [HTTPGet url]))"
      using e http_layer_get [OF assms(3) _ assms(4), of w c] by simp
    show "hd (snd (IsPodHealthy w c pod opts)) = HTTPGet url"
      using g by (simp split: http_result.splits)
    show "snd (IsPodHealthy w c pod opts) \<noteq> []"
      using g by (simp split: http_result.splits)
    show "IsPodHealthy w c pod opts = (Inr False, [HTTPGet url])"
      if "http_do w url = TransportError"
      using g that by simp
    show "IsPodHealthy w c pod opts = (Inr False, [HTTPGet url])"
      if "http_do w url = Response code \<and> \<not> (200 \<le> code \<and> code < 400)" for code
      using g that by auto
    show "IsPodHealthy w c pod opts =
        (fst (tcp_layer w c pod opts), HTTPGet url # snd (tcp_layer w c pod opts))"
      if "http_do w url = Response code \<and> 200 \<le> code \<and> code < 400" for code
      using g that by simp
  qed
qed

theorem C5_amended_witness:
  "IsPodHealthy quiet_world checker no_ip_pod http_only =
     (Inl ''http health check failed: pod IP is not available'', []) \<and>
   IsPodHealthy strict_url_world checker demo_pod no_slash_options =
     (Inl ''http health check failed: failed to create request: invalid port'', []) \<and>
   IsPodHealthy http_unreachable_world checker demo_pod http_only =
     (Inr False, [HTTPGet ''http://10.0.0.1:8080/status/health'']) \<and>
   IsPodHealthy http_down_world checker demo_pod http_only =
     (Inr False, [HTTPGet ''http://10.0.0.1:8080/status/health'']) \<and>
   IsPodHealthy quiet_world checker demo_pod http_only =
     (Inr True, [HTTPGet ''http://10.0.0.1:8080/status/health''])"
proof -
  have run: "Phase (PStatus demo_pod) = PodRunning" "ready_conditions (Conditions (PStatus demo_pod))"
    by (simp_all add: demo_pod_def)
  have run': "Phase (PStatus no_ip_pod) = PodRunning" "ready_conditions (Conditions (PStatus no_ip_pod))"
    by (simp_all add: no_ip_pod_def demo_pod_def)
  have cfg: "HTTPCheckURL http_only \<noteq> []" "HTTPCheckURL no_slash_options \<noteq> []"
    by (simp_all add: http_only_def no_slash_options_def)
  have u1: "''http://10.0.0.1:8080/status/health'' = http_url (PodIP (PStatus demo_pod)) (HTTPCheckURL http_only)"
    by (simp add: http_url_def demo_pod_def http_only_def)
  have u2: "''http://10.0.0.1:8080health'' = http_url (PodIP (PStatus demo_pod)) (HTTPCheckURL no_slash_options)"
    by (simp add: http_url_def demo_pod_def no_slash_options_def)
  have u3: "''http://:8080/status/health'' = http_url (PodIP (PStatus no_ip_pod)) (HTTPCheckURL http_only)"
    by (simp add: http_url_def no_ip_pod_def http_only_def)
  have ip: "PodIP (PStatus demo_pod) \<noteq> []" "PodIP (PStatus no_ip_pod) = []"
    by (simp_all add: demo_pod_def no_ip_pod_def)
  have t: "tcp_layer quiet_world checker demo_pod http_only = (Inr True, [])"
    by (simp add: tcp_layer_def exec_layer_def http_only_def no_options_def)
  have a: "IsPodHealthy quiet_world checker no_ip_pod http_only =
     (Inl ''http health check failed: pod IP is not available'', [])"
    using C5_amended [OF run' cfg(1) u3, of quiet_world checker] ip(2) by blast
  have b: "IsPodHealthy strict_url_world checker demo_pod no_slash_options =
     (Inl ''http health check failed: failed to create request: invalid port'', [])"
    using C5_amended [OF run cfg(2) u2, of strict_url_world checker] ip(1)
    by (simp add: strict_url_world_def)
  have c: "IsPodHealthy http_unreachable_world checker demo_pod http_only =
     (Inr False, [HTTPGet ''http://10.0.0.1:8080/status/health''])"
    using C5_amended [OF run cfg(1) u1, of http_unreachable_world checker] ip(1)
    by (simp add: http_unreachable_world_def quiet_world_def)
  have d: "IsPodHealthy http_down_world checker demo_pod http_only =
     (Inr False, [HTTPGet ''http://10.0.0.1:8080/status/health''])"
    using C5_amended [OF run cfg(1) u1, of http_down_world checker] ip(1)
    by (simp add: http_down_world_def quiet_world_def)
  have e: "IsPodHealthy quiet_world checker demo_pod http_only =
     (Inr True, [HTTPGet ''http://10.0.0.1:8080/status/health''])"
    using C5_amended [OF run cfg(1) u1, of quiet_world checker] ip(1) t
    by (simp add: quiet_world_def)
  from a b c d e show ?thesis by simp
qed

text \<open>
  The claim as first stated has a GET issued whenever the address is not empty. With the
  path \<open>health\<close> (no leading slash) the URL is \<open>http://10.0.0.1:8080health\<close>, whose port
  Go's URL parser rejects: \<open>http.NewRequestWithContext\<close> fails, no request is sent
  and the evaluation aborts with an error.
\<close>

theorem C5_counterexample:
  "PodIP (PStatus demo_pod) = ''10.0.0.1'' \<and>
   http_url (PodIP (PStatus demo_pod)) (HTTPCheckURL no_slash_options) = ''http://10.0.0.1:8080health'' \<and>
   IsPodHealthy strict_url_world checker demo_pod no_slash_options =
     (Inl ''http health check failed: failed to create request: invalid port'', [])"
  by (simp add: IsPodHealthy_def http_layer_def checkHTTPHealth_def http_url_def
      strict_url_world_def quiet_world_def demo_pod_def no_slash_options_def no_options_def)

subsection \<open>The exec layer\<close>

lemma layers_reached_exec:
  assumes "Phase (PStatus pod) = PodRunning" "ready_conditions (Conditions (PStatus pod))"
    and "HTTPCheckURL opts = [] \<or> fst (checkHTTPHealth w c pod (HTTPCheckURL opts)) = Inr True"
    and "TCPPort opts \<le> 0 \<or> fst (checkTCPPort w c pod (TCPPort opts)) = Inr True"
  shows "fst (IsPodHealthy w c pod opts) = fst (exec_layer w c pod opts)"
    and "\<exists>t. snd (IsPodHealthy w c pod opts) = t @ snd (exec_layer w c pod opts)
           \<and> (\<forall>req. ExecStream req \<notin> set t)"
proof -
  have e: "IsPodHealthy w c pod opts = http_layer w c pod opts"
    using assms(1,2) by (simp add: IsPodHealthy_def)
  have h: "fst (http_layer w c pod opts) = fst (tcp_layer w c pod opts) \<and>
      (\<exists>t. snd (http_layer w c pod opts) = t @ snd (tcp_layer w c pod opts)
         \<and> (\<forall>req. ExecStream req \<notin> set t))"
    using assms(3)
    by (auto simp: http_layer_def checkHTTPHealth_def Let_def
        split: prod.splits sum.splits option.splits http_result.splits if_splits)
  have t: "fst (tcp_layer w c pod opts) = fst (exec_layer w c pod opts) \<and>
      (\<exists>t. snd (tcp_layer w c pod opts) = t @ snd (exec_layer w c pod opts)
         \<and> (\<forall>req. ExecStream req \<notin> set t))"
    using assms(4)
    by (auto simp: tcp_layer_def checkTCPPort_def Let_def
        split: prod.splits sum.splits if_splits)
  show "fst (IsPodHealthy w c pod opts) = fst (exec_layer w c pod opts)"
    using e h t by simp
  from h obtain t1 where t1: "snd (http_layer w c pod opts) = t1 @ snd (tcp_layer w c pod opts)"
    "\<forall>req. ExecStream req \<notin> set t1" by blast
  from t obtain t2 where t2: "snd (tcp_layer w c pod opts) = t2 @ snd (exec_layer w c pod opts)"
    "\<forall>req. ExecStream req \<notin> set t2" by blast
  have "snd (IsPodHealthy w c pod opts) = (t1 @ t2) @ snd (exec_layer w c pod opts)"
    using e t1(1) t2(1) by simp
  moreover have "\<forall>req. ExecStream req \<notin> set (t1 @ t2)"
    using t1(2) t2(2) by simp
  ultimately show "\<exists>t. snd (IsPodHealthy w c pod opts) = t @ snd (exec_layer w c pod opts)
           \<and> (\<forall>req. ExecStream req \<notin> set t)" by blast
qed

lemma exec_layer_eq:
  assumes "ExecCommand opts \<noteq> []"
  shows "snd (exec_layer w c pod opts) =
      snd (checkExecCommand w c pod (ExecCommand opts) (ContainerName opts) (ExpectedOutput opts))"
    and "fst (checkExecCommand w c pod (ExecCommand opts) (ContainerName opts) (ExpectedOutput opts)) = Inr b
      \<Longrightarrow> fst (exec_layer w c pod opts) = Inr b"
    and "fst (checkExecCommand w c pod (ExecCommand opts) (ContainerName opts) (ExpectedOutput opts)) = Inl err
      \<Longrightarrow> fst (exec_layer w c pod opts) = Inl (''exec command check failed: '' @ err)"
  using assms by (auto simp: exec_layer_def split: prod.splits sum.splits)


text \<open>
  C4. Suppose the evaluation reaches the exec layer (the status layer passes, the HTTP and
  TCP layers pass or are not configured) and an exec command is configured. Without a
  Kubernetes client the evaluation aborts with an error and streams nothing. With a
  client, a declared container and an executor, the command \<open>sh -c <command>\<close> is
  streamed to the pod. Whenever a command is streamed, its container is the configured
  one, or the first declared container when none is configured, and the verdict carries
  no error: unhealthy on a stream error or a non-zero exit code; on exit code 0, healthy
  iff no expected output is configured, or the standard output equals it, or contains it
  as a contiguous substring.
\<close>

theorem C4:
  assumes "Phase (PStatus pod) = PodRunning"
    and "ready_conditions (Conditions (PStatus pod))"
    and "HTTPCheckURL opts = [] \<or> fst (checkHTTPHealth w c pod (HTTPCheckURL opts)) = Inr True"
    and "TCPPort opts \<le> 0 \<or> fst (checkTCPPort w c pod (TCPPort opts)) = Inr True"
    and "ExecCommand opts \<noteq> []"
  shows "(k8sClient c = None \<or> restConfig c = None \<longrightarrow>
            fst (IsPodHealthy w c pod opts) =
              Inl ''exec command check failed: kubernetes client not configured for exec checks'' \<and>
            (\<forall>req. ExecStream req \<notin> set (snd (IsPodHealthy w c pod opts))))
    \<and> (\<forall>first rest req.
          k8sClient c \<noteq> None \<and> restConfig c \<noteq> None \<and> Containers (Spec pod) = first # rest \<and>
          req = \<lparr>exec_namespace = Namespace_of pod, exec_pod = Name pod,
                 exec_container =
                   (if ContainerName opts = [] then ContainerName_of first else ContainerName opts),
                 exec_command = [''sh'', ''-c'', ExecCommand opts]\<rparr> \<and>
          new_executor w req = None \<longrightarrow>
            ExecStream req \<in> set (snd (IsPodHealthy w c pod opts)))
    \<and> (\<forall>req. ExecStream req \<in> set (snd (IsPodHealthy w c pod opts)) \<longrightarrow>
          (\<exists>first rest. Containers (Spec pod) = first # rest \<and>
             exec_container req =
               (if ContainerName opts = [] then ContainerName_of first else ContainerName opts)) \<and>
          exec_namespace req = Namespace_of pod \<and> exec_pod req = Name pod \<and>
          exec_command req = [''sh'', ''-c'', ExecCommand opts] \<and>
          fst (IsPodHealthy w c pod opts) =
            Inr (case stream w req of
                   StreamError \<Rightarrow> False
                 | Exited code out \<Rightarrow>
                     code = 0 \<and>
                     (ExpectedOutput opts = [] \<or> out = ExpectedOutput opts \<or>
                      sublist (ExpectedOutput opts) out)))"
proof -
  let ?chk = "checkExecCommand w c pod (ExecCommand opts) (ContainerName opts) (ExpectedOutput opts)"
  have v: "fst (IsPodHealthy w c pod opts) = fst (exec_layer w c pod opts)"
    using assms(1-4) by (rule layers_reached_exec(1))
  obtain t where t: "snd (IsPodHealthy w c pod opts) = t @ snd (exec_layer w c pod opts)"
    "\<forall>req. ExecStream req \<notin> set t"
    using layers_reached_exec(2) [OF assms(1-4)] by blast
  have tr: "snd (exec_layer w c pod opts) = snd ?chk"
    using assms(5) by (rule exec_layer_eq(1))
  have streamed: "ExecStream req \<in> set (snd (IsPodHealthy w c pod opts)) \<longleftrightarrow>
      ExecStream req \<in> set (snd ?chk)" for req
    using t tr by auto
  show ?thesis
  proof (intro conjI allI impI)
    assume nc: "k8sClient c = None \<or> restConfig c = None"
    have k: "?chk = (Inl ''kubernetes client not configured for exec checks'', [])"
      using nc by (rule checkExecCommand_no_client)
    show "fst (IsPodHealthy w c pod opts) =
        Inl ''exec command check failed: kubernetes client not configured for exec checks''"
      using v exec_layer_eq(3) [OF assms(5), of w c pod] k by simp
    show "ExecStream req \<notin> set (snd (IsPodHealthy w c pod opts))" for req
      using streamed [of req] k by simp
  next
    fix first rest req
    assume a: "k8sClient c \<noteq> None \<and> restConfig c \<noteq> None \<and> Containers (Spec pod) = first # rest \<and>
          req = \<lparr>exec_namespace = Namespace_of pod, exec_pod = Name pod,
                 exec_container =
                   (if ContainerName opts = [] then ContainerName_of first else ContainerName opts),
                 exec_command = [''sh'', ''-c'', ExecCommand opts]\<rparr> \<and>
          new_executor w req = None"
    then have "k8sClient c \<noteq> None" "restConfig c \<noteq> None"
      "Containers (Spec pod) = first # rest"
      "req = \<lparr>exec_namespace = Namespace_of pod, exec_pod = Name pod,
                 exec_container =
                   (if ContainerName opts = [] then ContainerName_of first else ContainerName opts),
                 exec_command = [''sh'', ''-c'', ExecCommand opts]\<rparr>"
      "new_executor w req = None"
      by blast+
    then have "?chk = (Inr (exec_passes (ExpectedOutput opts) (stream w req)), [ExecStream req])"
      by (rule checkExecCommand_runs)
    then show "ExecStream req \<in> set (snd (IsPodHealthy w c pod opts))"
      using streamed [of req] by simp
  next
    fix req
    assume "ExecStream req \<in> set (snd (IsPodHealthy w c pod opts))"
    then have s: "ExecStream req \<in> set (snd ?chk)"
      using streamed [of req] by simp
    from checkExecCommand_streamed [OF s] obtain first rest where
      cl: "k8sClient c \<noteq> None" "restConfig c \<noteq> None"
      and cs: "Containers (Spec pod) = first # rest"
      and rq: "req = \<lparr>exec_namespace = Namespace_of pod, exec_pod = Name pod,
           exec_container =
             (if ContainerName opts = [] then ContainerName_of first else ContainerName opts),
           exec_command = [''sh'', ''-c'', ExecCommand opts]\<rparr>"
      and ne: "new_executor w req = None"
      by blast
    have r: "?chk = (Inr (exec_passes (ExpectedOutput opts) (stream w req)), [ExecStream req])"
      using cl cs rq ne by (rule checkExecCommand_runs)
    show "\<exists>first rest. Containers (Spec pod) = first # rest \<and>
             exec_container req =
               (if ContainerName opts = [] then ContainerName_of first else ContainerName opts)"
      using cs rq by simp
    show "exec_namespace req = Namespace_of pod" using rq by simp
    show "exec_pod req = Name pod" using rq by simp
    show "exec_command req = [''sh'', ''-c'', ExecCommand opts]" using rq by simp
    have "fst (exec_layer w c pod opts) = Inr (exec_passes (ExpectedOutput opts) (stream w req))"
      using r by (intro exec_layer_eq(2) [OF assms(5)]) simp
    then show "fst (IsPodHealthy w c pod opts) =
            Inr (case stream w req of
                   StreamError \<Rightarrow> False
                 | Exited code out \<Rightarrow>
                     code = 0 \<and>
                     (ExpectedOutput opts = [] \<or> out = ExpectedOutput opts \<or>
                      sublist (ExpectedOutput opts) out))"
      using v by (simp add: exec_passes_def)
  qed
qed


theorem C4_witness:
  "fst (IsPodHealthy quiet_world checker demo_pod exec_only) =
     Inl ''exec command check failed: kubernetes client not configured for exec checks'' \<and>
   ExecStream demo_request \<in> set (snd (IsPodHealthy quiet_world exec_checker demo_pod exec_only)) \<and>
   fst (IsPodHealthy quiet_world exec_checker demo_pod exec_only) = Inr True \<and>
   fst (IsPodHealthy verbose_world exec_checker demo_pod exec_only) = Inr True \<and>
   fst (IsPodHealthy python_world exec_checker demo_pod exec_only) = Inr False \<and>
   fst (IsPodHealthy exit2_world exec_checker demo_pod exec_only) = Inr False \<and>
   fst (IsPodHealthy broken_stream_world exec_checker demo_pod exec_only) = Inr False"
proof -
  have run: "Phase (PStatus demo_pod) = PodRunning" "ready_conditions (Conditions (PStatus demo_pod))"
    by (simp_all add: demo_pod_def)
  have cfg: "ExecCommand exec_only \<noteq> []" "ExecCommand exec_only = ''ps aux | grep java''"
    "ExpectedOutput exec_only = ''java''" "ContainerName exec_only = []"
    by (simp_all add: exec_only_def no_options_def)
  have off: "HTTPCheckURL exec_only = [] \<or> fst (checkHTTPHealth w c demo_pod (HTTPCheckURL exec_only)) = Inr True"
    "TCPPort exec_only \<le> 0 \<or> fst (checkTCPPort w c demo_pod (TCPPort exec_only)) = Inr True" for w c
    by (simp_all add: exec_only_def no_options_def)
  have nocl: "k8sClient checker = None \<or> restConfig checker = None"
    by (simp add: checker_def NewChecker_def)
  have cl: "k8sClient exec_checker \<noteq> None" "restConfig exec_checker \<noteq> None"
    by (simp_all add: exec_checker_def SetKubernetesClient_def NewChecker_def)
  have cs: "Containers (Spec demo_pod) = \<lparr>ContainerName_of = ''router''\<rparr> # []"
    by (simp add: demo_pod_def)
  have rq: "demo_request = \<lparr>exec_namespace = Namespace_of demo_pod, exec_pod = Name demo_pod,
       exec_container =
         (if ContainerName exec_only = [] then ContainerName_of \<lparr>ContainerName_of = ''router''\<rparr>
          else ContainerName exec_only),
       exec_command = [''sh'', ''-c'', ExecCommand exec_only]\<rparr>"
    by (simp add: demo_request_def demo_pod_def cfg)
  have a: "fst (IsPodHealthy quiet_world checker demo_pod exec_only) =
     Inl ''exec command check failed: kubernetes client not configured for exec checks''"
    using C4 [where w = quiet_world and c = checker, OF run off cfg(1)] nocl by blast
  have streamed: "ExecStream demo_request \<in> set (snd (IsPodHealthy w exec_checker demo_pod exec_only))"
    if "new_executor w demo_request = None" for w
    using C4 [where w = w and c = exec_checker, OF run off cfg(1)] cl cs rq that by blast
  have verdict: "fst (IsPodHealthy w exec_checker demo_pod exec_only) =
      Inr (case stream w demo_request of
             StreamError \<Rightarrow> False
           | Exited code out \<Rightarrow> code = 0 \<and> (out = ''java'' \<or> sublist ''java'' out))"
    if "new_executor w demo_request = None" for w
  proof -
    have "fst (IsPodHealthy w exec_checker demo_pod exec_only) =
      Inr (case stream w demo_request of
             StreamError \<Rightarrow> False
           | Exited code out \<Rightarrow> code = 0 \<and>
               (ExpectedOutput exec_only = [] \<or> out = ExpectedOutput exec_only \<or>
                sublist (ExpectedOutput exec_only) out))"
      using C4 [where w = w and c = exec_checker, OF run off cfg(1)] streamed [OF that] by blast
    then show ?thesis by (simp add: cfg(3) split: exec_outcome.splits)
  qed
  have b: "fst (IsPodHealthy quiet_world exec_checker demo_pod exec_only) = Inr True"
    using verdict [of quiet_world] by (simp add: quiet_world_def)
  have c: "fst (IsPodHealthy verbose_world exec_checker demo_pod exec_only) = Inr True"
    using verdict [of verbose_world]
    by (simp add: verbose_world_def quiet_world_def sublist_Cons_right)
  have d: "fst (IsPodHealthy python_world exec_checker demo_pod exec_only) = Inr False"
    using verdict [of python_world]
    by (simp add: python_world_def quiet_world_def sublist_Cons_right)
  have e: "fst (IsPodHealthy exit2_world exec_checker demo_pod exec_only) = Inr False"
    using verdict [of exit2_world] by (simp add: exit2_world_def quiet_world_def)
  have f: "fst (IsPodHealthy broken_stream_world exec_checker demo_pod exec_only) = Inr False"
    using verdict [of broken_stream_world] by (simp add: broken_stream_world_def quiet_world_def)
  have g: "ExecStream demo_request \<in> set (snd (IsPodHealthy quiet_world exec_checker demo_pod exec_only))"
    using streamed [of quiet_world] by (simp add: quiet_world_def)
  from a g b c d e f show ?thesis by simp
qed

subsection \<open>The paths of Reconcile\<close>

lemma Reconcile_fetch_error:
  assumes "get_pod w req = Inl err"
  shows "Reconcile w r req =
    (if IsNotFound err then ((empty_Result, None), [GetPod req])
     else ((empty_Result, Some (''failed to get pod: '' @ Error_of err)), [GetPod req]))"
  using assms by (simp add: Reconcile_def)

lemma Reconcile_no_match:
  assumes "get_pod w req = Inr pod" "\<not> fst (matchesFilter w r pod)"
  shows "fst (Reconcile w r req) = (empty_Result, None)"
  using assms by (auto simp: Reconcile_def split: prod.splits)

lemma Reconcile_health_error:
  assumes "get_pod w req = Inr pod" "fst (matchesFilter w r pod)"
    and "fst (IsPodHealthy w (HealthChecker r) pod (Options r)) = Inl err"
  shows "fst (Reconcile w r req) = (\<lparr>Requeue = False, RequeueAfter = 10 * Second\<rparr>, None)"
  using assms by (auto simp: Reconcile_def split: prod.splits sum.splits)

lemma Reconcile_healthy:
  assumes "get_pod w req = Inr pod" "fst (matchesFilter w r pod)"
    and "fst (IsPodHealthy w (HealthChecker r) pod (Options r)) = Inr True"
  shows "fst (Reconcile w r req) = (empty_Result, None)"
    and "DeletePod k \<notin> set (snd (Reconcile w r req)) \<longleftrightarrow>
         DeletePod k \<notin> set (snd (matchesFilter w r pod)) \<and>
         DeletePod k \<notin> set (snd (IsPodHealthy w (HealthChecker r) pod (Options r)))"
  using assms by (auto simp: Reconcile_def split: prod.splits sum.splits)

lemma Reconcile_unhealthy:
  assumes "get_pod w req = Inr pod" "fst (matchesFilter w r pod)"
    and "fst (IsPodHealthy w (HealthChecker r) pod (Options r)) = Inr False"
  shows "fst (Reconcile w r req) = fst (restart w r pod)"
    and "snd (Reconcile w r req) =
      [GetPod req] @ snd (matchesFilter w r pod) @ [LogInfo ''Reconciling pod''] @
      snd (IsPodHealthy w (HealthChecker r) pod (Options r)) @ snd (restart w r pod)"
  using assms by (auto simp: Reconcile_def split: prod.splits sum.splits)

lemma restart_result:
  "fst (restart w r pod) =
    (case delete_pod w (Namespace_of pod, Name pod) of
       None \<Rightarrow> (empty_Result, None)
     | Some err \<Rightarrow>
         if IsNotFound err then (empty_Result, None)
         else (\<lparr>Requeue = False, RequeueAfter = 10 * Second\<rparr>, None))"
  by (simp add: restart_def Let_def split: option.splits)

subsection \<open>The concrete worlds, evaluated\<close>

lemma demo_fetch:
  "get_pod (quiet_world\<lparr>delete_pod := d, tcp_dial := t, new_executor := n\<rparr>) demo_key = Inr demo_pod"
  by (simp add: quiet_world_def)

lemma demo_matches_statefulset:
  "matchesFilter (quiet_world\<lparr>delete_pod := d, tcp_dial := t, new_executor := n\<rparr>) sts_reconciler demo_pod
     = (True, [GetStatefulSet (''druid'', ''druid-router'')])"
  by (simp add: matchesFilter_def matches_label_selector_def belongsToStatefulSet_def
      sts_reconciler_def quiet_world_def spec_LabelSelectorAsSelector_def satisfies_def demo_pod_def)

lemma demo_tcp_closed:
  "fst (IsPodHealthy (quiet_world\<lparr>delete_pod := d, tcp_dial := (\<lambda>address. False), new_executor := n\<rparr>)
      exec_checker demo_pod all_options) = Inr False"
  by (simp add: IsPodHealthy_def http_layer_def tcp_layer_def checkHTTPHealth_def checkTCPPort_def
      quiet_world_def demo_pod_def all_options_def)

lemma demo_no_executor:
  "fst (IsPodHealthy (quiet_world\<lparr>delete_pod := d, tcp_dial := (\<lambda>address. True),
      new_executor := (\<lambda>req. Some ''dial failed'')\<rparr>) exec_checker demo_pod all_options)
     = Inl ''exec command check failed: failed to create executor: dial failed''"
  by (simp add: IsPodHealthy_def http_layer_def tcp_layer_def exec_layer_def checkHTTPHealth_def
      checkTCPPort_def checkExecCommand_def quiet_world_def demo_pod_def all_options_def
      exec_checker_def SetKubernetesClient_def NewChecker_def)

lemma world_shapes:
  "tcp_closed_world = quiet_world\<lparr>delete_pod := (\<lambda>k. None), tcp_dial := (\<lambda>address. False),
     new_executor := (\<lambda>req. None)\<rparr>"
  "delete_fails_world = quiet_world\<lparr>delete_pod := (\<lambda>k. Some (OtherErr ''forbidden'')),
     tcp_dial := (\<lambda>address. False), new_executor := (\<lambda>req. None)\<rparr>"
  "already_gone_world = quiet_world\<lparr>delete_pod := (\<lambda>k. Some (NotFoundErr ''not found'')),
     tcp_dial := (\<lambda>address. False), new_executor := (\<lambda>req. None)\<rparr>"
  "no_executor_world = quiet_world\<lparr>delete_pod := (\<lambda>k. None), tcp_dial := (\<lambda>address. True),
     new_executor := (\<lambda>req. Some ''dial failed'')\<rparr>"
  by (simp_all add: tcp_closed_world_def delete_fails_world_def already_gone_world_def
      no_executor_world_def quiet_world_def)

subsection \<open>Retryable errors\<close>

text \<open>
  C2 (as amended). A fetch error other than NotFound is returned to the caller: \<open>Reconcile\<close>
  yields the error \<open>failed to get pod: ...\<close> beside an empty result. An error of the health
  evaluation, and an error of the delete other than NotFound, are not returned: \<open>Reconcile\<close>
  yields no error and a result asking to be called again after 10 seconds.
\<close>

theorem C2_amended:
  "(\<forall>err. get_pod w req = Inl err \<and> \<not> IsNotFound err \<longrightarrow>
       fst (Reconcile w r req) = (empty_Result, Some (''failed to get pod: '' @ Error_of err)))
   \<and> (\<forall>pod err. get_pod w req = Inr pod \<and> fst (matchesFilter w r pod) \<and>
         fst (IsPodHealthy w (HealthChecker r) pod (Options r)) = Inl err \<longrightarrow>
       fst (Reconcile w r req) = (\<lparr>Requeue = False, RequeueAfter = 10 * Second\<rparr>, None))
   \<and> (\<forall>pod err. get_pod w req = Inr pod \<and> fst (matchesFilter w r pod) \<and>
         fst (IsPodHealthy w (HealthChecker r) pod (Options r)) = Inr False \<and>
         delete_pod w (Namespace_of pod, Name pod) = Some err \<and> \<not> IsNotFound err \<longrightarrow>
       fst (Reconcile w r req) = (\<lparr>Requeue = False, RequeueAfter = 10 * Second\<rparr>, None))"
proof (intro conjI allI impI)
  fix err
  assume "get_pod w req = Inl err \<and> \<not> IsNotFound err"
  then show "fst (Reconcile w r req) = (empty_Result, Some (''failed to get pod: '' @ Error_of err))"
    by (simp add: Reconcile_fetch_error)
next
  fix pod err
  assume "get_pod w req = Inr pod \<and> fst (matchesFilter w r pod) \<and>
         fst (IsPodHealthy w (HealthChecker r) pod (Options r)) = Inl err"
  then show "fst (Reconcile w r req) = (\<lparr>Requeue = False, RequeueAfter = 10 * Second\<rparr>, None)"
    using Reconcile_health_error [of w req pod r err] by blast
next
  fix pod err
  assume a: "get_pod w req = Inr pod \<and> fst (matchesFilter w r pod) \<and>
         fst (IsPodHealthy w (HealthChecker r) pod (Options r)) = Inr False \<and>
         delete_pod w (Namespace_of pod, Name pod) = Some err \<and> \<not> IsNotFound err"
  then have "fst (Reconcile w r req) = fst (restart w r pod)"
    using Reconcile_unhealthy(1) [of w req pod r] by blast
  with a show "fst (Reconcile w r req) = (\<lparr>Requeue = False, RequeueAfter = 10 * Second\<rparr>, None)"
    by (simp add: restart_result)
qed

theorem C2_amended_witness:
  "fst (Reconcile api_down_world sts_reconciler demo_key) =
     (empty_Result, Some ''failed to get pod: connection refused'') \<and>
   fst (IsPodHealthy no_executor_world (HealthChecker sts_reconciler) demo_pod (Options sts_reconciler)) =
     Inl ''exec command check failed: failed to create executor: dial failed'' \<and>
   fst (Reconcile no_executor_world sts_reconciler demo_key) =
     (\<lparr>Requeue = False, RequeueAfter = 10000000000\<rparr>, None) \<and>
   delete_pod delete_fails_world demo_key = Some (OtherErr ''forbidden'') \<and>
   fst (Reconcile delete_fails_world sts_reconciler demo_key) =
     (\<lparr>Requeue = False, RequeueAfter = 10000000000\<rparr>, None)"
proof -
  have cfg: "HealthChecker sts_reconciler = exec_checker" "Options sts_reconciler = all_options"
    by (simp_all add: sts_reconciler_def)
  have key: "(Namespace_of demo_pod, Name demo_pod) = demo_key"
    by (simp add: demo_pod_def)
  have f: "get_pod api_down_world demo_key = Inl (OtherErr ''connection refused'')"
    by (simp add: api_down_world_def)
  have a: "fst (Reconcile api_down_world sts_reconciler demo_key) =
     (empty_Result, Some ''failed to get pod: connection refused'')"
    using C2_amended [of api_down_world demo_key sts_reconciler] f by simp
  have h: "fst (IsPodHealthy no_executor_world (HealthChecker sts_reconciler) demo_pod
      (Options sts_reconciler)) = Inl ''exec command check failed: failed to create executor: dial failed''"
    by (simp add: cfg world_shapes(4) demo_no_executor)
  have b: "fst (Reconcile no_executor_world sts_reconciler demo_key) =
     (\<lparr>Requeue = False, RequeueAfter = 10 * Second\<rparr>, None)"
    using C2_amended [of no_executor_world demo_key sts_reconciler] h
      demo_fetch [where d = "\<lambda>k. None" and t = "\<lambda>address. True" and n = "\<lambda>req. Some ''dial failed''"]
      demo_matches_statefulset [where d = "\<lambda>k. None" and t = "\<lambda>address. True" and n = "\<lambda>req. Some ''dial failed''"]
    unfolding world_shapes(4) by (metis fst_conv)
  have d: "delete_pod delete_fails_world demo_key = Some (OtherErr ''forbidden'')"
    by (simp add: delete_fails_world_def)
  have u: "fst (IsPodHealthy delete_fails_world (HealthChecker sts_reconciler) demo_pod
      (Options sts_reconciler)) = Inr False"
    by (simp add: cfg world_shapes(2) demo_tcp_closed)
  have c: "fst (Reconcile delete_fails_world sts_reconciler demo_key) =
     (\<lparr>Requeue = False, RequeueAfter = 10 * Second\<rparr>, None)"
    using C2_amended [of delete_fails_world demo_key sts_reconciler] u d key
      demo_fetch [where d = "\<lambda>k. Some (OtherErr ''forbidden'')" and t = "\<lambda>address. False" and n = "\<lambda>req. None"]
      demo_matches_statefulset [where d = "\<lambda>k. Some (OtherErr ''forbidden'')" and t = "\<lambda>address. False" and n = "\<lambda>req. None"]
    unfolding world_shapes(2) by (metis IsNotFound.simps(2) fst_conv)
  from a h b d c show ?thesis by simp
qed

text \<open>
  The claim as first stated has every retryable error, the fetch error included, turned
  into the 10 second retry with no error raised. When the API server refuses the fetch,
  \<open>Reconcile\<close> returns the wrapped error and a result whose retry delay is zero.
\<close>

theorem C2_counterexample:
  "get_pod api_down_world demo_key = Inl (OtherErr ''connection refused'') \<and>
   Reconcile api_down_world sts_reconciler demo_key =
     ((\<lparr>Requeue = False, RequeueAfter = 0\<rparr>, Some ''failed to get pod: connection refused''),
      [GetPod demo_key])"
  by (simp add: Reconcile_def api_down_world_def empty_Result_def)

subsection \<open>Idempotent delete\<close>

text \<open>
  C7. When the pod is fetched, matches the filter and is unhealthy, and the delete call
  answers NotFound, \<open>Reconcile\<close> finishes with the empty result and no error: no retry is
  requested, the delete call has been made, and the restart branch logs no error. The
  result is the one of every reconcile of the same unhealthy pod whose delete succeeds.
\<close>

theorem C7:
  assumes "get_pod w req = Inr pod"
    and "fst (matchesFilter w r pod)"
    and "fst (IsPodHealthy w (HealthChecker r) pod (Options r)) = Inr False"
    and "delete_pod w (Namespace_of pod, Name pod) = Some err"
    and "IsNotFound err"
  shows "fst (Reconcile w r req) = (empty_Result, None)
    \<and> Requeue (fst (fst (Reconcile w r req))) = False
    \<and> RequeueAfter (fst (fst (Reconcile w r req))) = 0
    \<and> DeletePod (Namespace_of pod, Name pod) \<in> set (snd (Reconcile w r req))
    \<and> (\<forall>e m. LogError e m \<notin> set (snd (restart w r pod)))
    \<and> (\<forall>w'. get_pod w' req = Inr pod \<and> fst (matchesFilter w' r pod) \<and>
           fst (IsPodHealthy w' (HealthChecker r) pod (Options r)) = Inr False \<and>
           delete_pod w' (Namespace_of pod, Name pod) = None
           \<longrightarrow> fst (Reconcile w' r req) = fst (Reconcile w r req))"
proof -
  have a: "fst (Reconcile w r req) = (empty_Result, None)"
    using Reconcile_unhealthy(1) [OF assms(1-3)] assms(4,5) by (simp add: restart_result)
  have b: "fst (Reconcile w' r req) = (empty_Result, None)"
    if "get_pod w' req = Inr pod \<and> fst (matchesFilter w' r pod) \<and>
           fst (IsPodHealthy w' (HealthChecker r) pod (Options r)) = Inr False \<and>
           delete_pod w' (Namespace_of pod, Name pod) = None" for w'
    using that Reconcile_unhealthy(1) [of w' req pod r] by (simp add: restart_result)
  have c: "DeletePod (Namespace_of pod, Name pod) \<in> set (snd (restart w r pod))"
    "\<forall>e m. LogError e m \<notin> set (snd (restart w r pod))"
    using assms(4,5) by (simp_all add: restart_def Let_def)
  have d: "DeletePod (Namespace_of pod, Name pod) \<in> set (snd (Reconcile w r req))"
    using Reconcile_unhealthy(2) [OF assms(1-3)] c(1) by simp
  from a b c(2) d show ?thesis
    by (simp add: empty_Result_def)
qed

theorem C7_witness:
  "delete_pod already_gone_world demo_key = Some (NotFoundErr ''not found'') \<and>
   delete_pod tcp_closed_world demo_key = None \<and>
   fst (Reconcile already_gone_world sts_reconciler demo_key) =
     (\<lparr>Requeue = False, RequeueAfter = 0\<rparr>, None) \<and>
   fst (Reconcile tcp_closed_world sts_reconciler demo_key) =
     fst (Reconcile already_gone_world sts_reconciler demo_key)"
proof -
  have cfg: "HealthChecker sts_reconciler = exec_checker" "Options sts_reconciler = all_options"
    by (simp_all add: sts_reconciler_def)
  have key: "(Namespace_of demo_pod, Name demo_pod) = demo_key"
    by (simp add: demo_pod_def)
  have g: "get_pod already_gone_world demo_key = Inr demo_pod"
    "get_pod tcp_closed_world demo_key = Inr demo_pod"
    unfolding world_shapes by (rule demo_fetch)+
  have m: "fst (matchesFilter already_gone_world sts_reconciler demo_pod)"
    "fst (matchesFilter tcp_closed_world sts_reconciler demo_pod)"
    unfolding world_shapes by (simp_all add: demo_matches_statefulset)
  have u: "fst (IsPodHealthy already_gone_world (HealthChecker sts_reconciler) demo_pod
      (Options sts_reconciler)) = Inr False"
    "fst (IsPodHealthy tcp_closed_world (HealthChecker sts_reconciler) demo_pod
      (Options sts_reconciler)) = Inr False"
    unfolding world_shapes cfg by (rule demo_tcp_closed)+
  have d: "delete_pod already_gone_world (Namespace_of demo_pod, Name demo_pod) =
      Some (NotFoundErr ''not found'')"
    "delete_pod tcp_closed_world (Namespace_of demo_pod, Name demo_pod) = None"
    by (simp_all add: already_gone_world_def tcp_closed_world_def quiet_world_def)
  have nf: "IsNotFound (NotFoundErr ''not found'')" by simp
  note c7 = C7 [OF g(1) m(1) u(1) d(1) nf]
  have a: "fst (Reconcile already_gone_world sts_reconciler demo_key) =
     (\<lparr>Requeue = False, RequeueAfter = 0\<rparr>, None)"
    using c7 by (simp add: empty_Result_def)
  have b: "fst (Reconcile tcp_closed_world sts_reconciler demo_key) =
     fst (Reconcile already_gone_world sts_reconciler demo_key)"
    using c7 g(2) m(2) u(2) d(2) by blast
  from a b d key show ?thesis by simp
qed

subsection \<open>Failed owner lookup\<close>

text \<open>
  C8. With a stateful set name configured, \<open>matchesFilter\<close> answers false on every path on
  which the lookup yields no selector: when the get of the stateful set fails, the error
  being logged; when the stateful set has no selector; and when its selector cannot be
  converted, the error being logged. The failure is not fatal: a reconcile whose lookup
  fails ends with the empty result and no error, the pod skipped.
\<close>

theorem C8:
  assumes "StatefulSetName r \<noteq> []"
    and "key = (Namespace r, StatefulSetName r)"
  shows "(\<forall>err. get_statefulset w key = Inl err \<longrightarrow>
            matchesFilter w r pod =
              (False, [GetStatefulSet key, LogError (Error_of err) ''Failed to get StatefulSet'']))
    \<and> (\<forall>sts. get_statefulset w key = Inr sts \<and> Selector sts = None \<longrightarrow>
            matchesFilter w r pod = (False, [GetStatefulSet key]))
    \<and> (\<forall>sts ls err. get_statefulset w key = Inr sts \<and> Selector sts = Some ls \<and>
            LabelSelectorAsSelector w ls = Inl err \<longrightarrow>
            matchesFilter w r pod =
              (False, [GetStatefulSet key, LogError err ''Failed to create selector'']))
    \<and> (\<forall>err req. get_statefulset w key = Inl err \<and> get_pod w req = Inr pod \<longrightarrow>
            Reconcile w r req =
              ((empty_Result, None),
               [GetPod req, GetStatefulSet key,
                LogError (Error_of err) ''Failed to get StatefulSet'',
                LogV1 ''Pod does not match filter criteria, skipping'']))"
proof (intro conjI allI impI)
  fix err
  assume "get_statefulset w key = Inl err"
  then show "matchesFilter w r pod =
      (False, [GetStatefulSet key, LogError (Error_of err) ''Failed to get StatefulSet''])"
    using assms by (simp add: matchesFilter_def belongsToStatefulSet_def)
next
  fix sts
  assume "get_statefulset w key = Inr sts \<and> Selector sts = None"
  then show "matchesFilter w r pod = (False, [GetStatefulSet key])"
    using assms by (simp add: matchesFilter_def belongsToStatefulSet_def)
next
  fix sts ls err
  assume "get_statefulset w key = Inr sts \<and> Selector sts = Some ls \<and>
            LabelSelectorAsSelector w ls = Inl err"
  then show "matchesFilter w r pod =
      (False, [GetStatefulSet key, LogError err ''Failed to create selector''])"
    using assms by (simp add: matchesFilter_def belongsToStatefulSet_def)
next
  fix err req
  assume a: "get_statefulset w key = Inl err \<and> get_pod w req = Inr pod"
  then have "matchesFilter w r pod =
      (False, [GetStatefulSet key, LogError (Error_of err) ''Failed to get StatefulSet''])"
    using assms by (simp add: matchesFilter_def belongsToStatefulSet_def)
  with a show "Reconcile w r req =
              ((empty_Result, None),
               [GetPod req, GetStatefulSet key,
                LogError (Error_of err) ''Failed to get StatefulSet'',
                LogV1 ''Pod does not match filter criteria, skipping''])"
    by (simp add: Reconcile_def)
qed

theorem C8_witness:
  "get_statefulset sts_down_world (''druid'', ''druid-router'') = Inl (OtherErr ''timeout'') \<and>
   matchesFilter sts_down_world both_reconciler demo_pod =
     (False, [GetStatefulSet (''druid'', ''druid-router''),
              LogError ''timeout'' ''Failed to get StatefulSet'']) \<and>
   Reconcile sts_down_world both_reconciler demo_key =
     ((\<lparr>Requeue = False, RequeueAfter = 0\<rparr>, None),
      [GetPod demo_key, GetStatefulSet (''druid'', ''druid-router''),
       LogError ''timeout'' ''Failed to get StatefulSet'',
       LogV1 ''Pod does not match filter criteria, skipping'']) \<and>
   matchesFilter nil_selector_world both_reconciler demo_pod =
     (False, [GetStatefulSet (''druid'', ''druid-router'')]) \<and>
   matchesFilter bad_selector_world both_reconciler demo_pod =
     (False, [GetStatefulSet (''druid'', ''druid-router''),
              LogError ''invalid label value'' ''Failed to create selector''])"
proof -
  have n: "StatefulSetName both_reconciler \<noteq> []"
    by (simp add: both_reconciler_def sts_reconciler_def)
  have k: "(''druid'', ''druid-router'') = (Namespace both_reconciler, StatefulSetName both_reconciler)"
    by (simp add: both_reconciler_def sts_reconciler_def)
  have e: "get_statefulset sts_down_world (''druid'', ''druid-router'') = Inl (OtherErr ''timeout'')"
    by (simp add: sts_down_world_def)
  have g: "get_pod sts_down_world demo_key = Inr demo_pod"
    by (simp add: sts_down_world_def quiet_world_def)
  have a: "matchesFilter sts_down_world both_reconciler demo_pod =
     (False, [GetStatefulSet (''druid'', ''druid-router''),
              LogError ''timeout'' ''Failed to get StatefulSet''])"
    using C8 [OF n k, of sts_down_world demo_pod] e by simp
  have b: "Reconcile sts_down_world both_reconciler demo_key =
     ((\<lparr>Requeue = False, RequeueAfter = 0\<rparr>, None),
      [GetPod demo_key, GetStatefulSet (''druid'', ''druid-router''),
       LogError ''timeout'' ''Failed to get StatefulSet'',
       LogV1 ''Pod does not match filter criteria, skipping''])"
    using C8 [OF n k, of sts_down_world demo_pod] e g by (simp add: empty_Result_def)
  have c: "matchesFilter nil_selector_world both_reconciler demo_pod =
     (False, [GetStatefulSet (''druid'', ''druid-router'')])"
    using C8 [OF n k, of nil_selector_world demo_pod] by (simp add: nil_selector_world_def)
  have d: "matchesFilter bad_selector_world both_reconciler demo_pod =
     (False, [GetStatefulSet (''druid'', ''druid-router''),
              LogError ''invalid label value'' ''Failed to create selector''])"
    using C8 [OF n k, of bad_selector_world demo_pod]
    by (simp add: bad_selector_world_def quiet_world_def)
  from e a b c d show ?thesis by simp
qed

subsection \<open>The filter\<close>

lemma split_on_not_Nil [simp]: "split_on c s \<noteq> []"
  by (induction s) (auto split: list.splits)

lemma split_on_plain: "c \<notin> set xs \<Longrightarrow> split_on c xs = [xs]"
  by (induction xs) auto

lemma split_on_append: "c \<notin> set xs \<Longrightarrow> split_on c (xs @ c # ys) = xs # split_on c ys"
  by (induction xs) (auto split: list.splits)

lemma render_term_no_comma: "well_formed_term t \<Longrightarrow> CHR '','' \<notin> set (render_term t)"
  by (auto simp: well_formed_term_def render_term_def)

lemma takeWhile_until: "c \<notin> set a \<Longrightarrow> takeWhile (\<lambda>ch. ch \<noteq> c) (a @ c # b) = a"
  by (induction a) auto

lemma dropWhile_until: "c \<notin> set a \<Longrightarrow> dropWhile (\<lambda>ch. ch \<noteq> c) (a @ c # b) = c # b"
  by (induction a) auto

lemma parse_term_render: "well_formed_term t \<Longrightarrow> parse_term (render_term t) = Some t"
  by (cases t) (simp add: well_formed_term_def render_term_def parse_term_def
      takeWhile_until dropWhile_until)

lemma split_on_join:
  "ts \<noteq> [] \<Longrightarrow> list_all well_formed_term ts \<Longrightarrow>
   split_on CHR '','' (join_terms ts) = map render_term ts"
proof (induction ts rule: join_terms.induct)
  case 1
  then show ?case by simp
next
  case (2 t)
  then show ?case by (simp add: split_on_plain render_term_no_comma)
next
  case (3 t u ts)
  then have "CHR '','' \<notin> set (render_term t)"
    by (simp add: render_term_no_comma)
  then have "split_on CHR '','' (render_term t @ CHR '','' # join_terms (u # ts))
      = render_term t # split_on CHR '','' (join_terms (u # ts))"
    by (rule split_on_append)
  with 3 show ?case by simp
qed

lemma those_parse_render:
  "list_all well_formed_term ts \<Longrightarrow> those (map (parse_term \<circ> render_term) ts) = Some ts"
  by (induction ts) (auto simp: parse_term_render)

lemma parse_terms_join:
  "ts \<noteq> [] \<Longrightarrow> list_all well_formed_term ts \<Longrightarrow> parse_terms (join_terms ts) = Some ts"
  by (simp add: parse_terms_def split_on_join those_parse_render)

lemma join_terms_not_Nil: "ts \<noteq> [] \<Longrightarrow> join_terms ts \<noteq> []"
  by (induction ts rule: join_terms.induct) (auto simp: render_term_def)

lemma satisfies_iff: "satisfies ts ls \<longleftrightarrow> (\<forall>(k, v) \<in> set ts. ls k = Some v)"
  by (auto simp: satisfies_def list_all_iff)

lemma matchesFilter_both:
  assumes "StatefulSetName r \<noteq> []" "PodLabelSelector r \<noteq> []"
  shows "fst (matchesFilter w r pod) \<longleftrightarrow>
     fst (belongsToStatefulSet w r pod) \<and>
     (\<exists>sel. labels_Parse w (PodLabelSelector r) = Inr sel \<and> sel (Labels pod))"
  using assms
  by (auto simp: matchesFilter_def matches_label_selector_def split: prod.splits sum.splits)

lemma matchesFilter_labels_only:
  assumes "StatefulSetName r = []" "PodLabelSelector r \<noteq> []"
  shows "fst (matchesFilter w r pod) \<longleftrightarrow>
     (\<exists>sel. labels_Parse w (PodLabelSelector r) = Inr sel \<and> sel (Labels pod))"
  using assms
  by (auto simp: matchesFilter_def matches_label_selector_def split: prod.splits sum.splits)

lemma spec_Parse_join:
  "ts \<noteq> [] \<Longrightarrow> list_all well_formed_term ts \<Longrightarrow> spec_Parse (join_terms ts) = Inr (satisfies ts)"
  by (simp add: spec_Parse_def parse_terms_join)

lemma demo_labels:
  "Labels demo_pod ''app'' = Some ''router''" "Labels demo_pod ''component'' = None"
  by (simp_all add: demo_pod_def)

lemma demo_belongs:
  "fst (belongsToStatefulSet quiet_world (sts_reconciler\<lparr>PodLabelSelector := s\<rparr>) demo_pod)"
  by (simp add: belongsToStatefulSet_def sts_reconciler_def quiet_world_def
      spec_LabelSelectorAsSelector_def satisfies_def demo_labels)

lemma selector_texts:
  "''app=router'' = join_terms [(''app'', ''router'')]"
  "''app=frontend'' = join_terms [(''app'', ''frontend'')]"
  "''app=router,component=druid'' = join_terms [(''app'', ''router''), (''component'', ''druid'')]"
  by (simp_all add: render_term_def)

lemma well_formed_examples:
  "list_all well_formed_term [(''app'', ''router'')]"
  "list_all well_formed_term [(''app'', ''frontend'')]"
  "list_all well_formed_term [(''app'', ''router''), (''component'', ''druid'')]"
  by (simp_all add: well_formed_term_def)


text \<open>
  C6. When both a stateful set name and a label selector are configured, \<open>matchesFilter\<close>
  answers true iff the pod belongs to the stateful set and the selector parses and
  matches the pod's labels: the two criteria are intersected. With the label selector
  alone, and the selector text the comma-joined equality terms \<open>ts\<close> (parsed as the spec
  describes), the pod matches iff for every term its key is present in the pod's labels
  with exactly its value.
\<close>

theorem C6:
  "(StatefulSetName r \<noteq> [] \<and> PodLabelSelector r \<noteq> [] \<longrightarrow>
      fst (matchesFilter w r pod) =
        (fst (belongsToStatefulSet w r pod) \<and>
         (\<exists>sel. labels_Parse w (PodLabelSelector r) = Inr sel \<and> sel (Labels pod))))
   \<and> (\<forall>ts. StatefulSetName r = [] \<and> labels_Parse w = spec_Parse \<and>
         ts \<noteq> [] \<and> list_all well_formed_term ts \<and> PodLabelSelector r = join_terms ts \<longrightarrow>
      fst (matchesFilter w r pod) = (\<forall>(k, v) \<in> set ts. Labels pod k = Some v))"
proof (intro conjI allI impI)
  assume "StatefulSetName r \<noteq> [] \<and> PodLabelSelector r \<noteq> []"
  then show "fst (matchesFilter w r pod) =
        (fst (belongsToStatefulSet w r pod) \<and>
         (\<exists>sel. labels_Parse w (PodLabelSelector r) = Inr sel \<and> sel (Labels pod)))"
    using matchesFilter_both [of r w pod] by blast
next
  fix ts
  assume a: "StatefulSetName r = [] \<and> labels_Parse w = spec_Parse \<and>
         ts \<noteq> [] \<and> list_all well_formed_term ts \<and> PodLabelSelector r = join_terms ts"
  then have p: "labels_Parse w (PodLabelSelector r) = Inr (satisfies ts)"
    by (simp add: spec_Parse_def parse_terms_join)
  from a have "PodLabelSelector r \<noteq> []"
    by (simp add: join_terms_not_Nil)
  with a have "fst (matchesFilter w r pod) \<longleftrightarrow>
     (\<exists>sel. labels_Parse w (PodLabelSelector r) = Inr sel \<and> sel (Labels pod))"
    by (intro matchesFilter_labels_only) simp_all
  with p show "fst (matchesFilter w r pod) = (\<forall>(k, v) \<in> set ts. Labels pod k = Some v)"
    by (simp add: satisfies_iff)
qed

theorem C6_witness:
  "fst (belongsToStatefulSet quiet_world both_reconciler demo_pod) \<and>
   fst (matchesFilter quiet_world both_reconciler demo_pod) \<and>
   fst (belongsToStatefulSet quiet_world frontend_reconciler demo_pod) \<and>
   \<not> fst (matchesFilter quiet_world frontend_reconciler demo_pod) \<and>
   PodLabelSelector label_reconciler = join_terms [(''app'', ''router'')] \<and>
   fst (matchesFilter quiet_world label_reconciler demo_pod) \<and>
   \<not> fst (matchesFilter quiet_world
       (label_reconciler\<lparr>PodLabelSelector := join_terms [(''app'', ''router''), (''component'', ''druid'')]\<rparr>)
       demo_pod)"
proof -
  let ?two = "label_reconciler\<lparr>PodLabelSelector :=
      join_terms [(''app'', ''router''), (''component'', ''druid'')]\<rparr>"
  have names: "StatefulSetName both_reconciler \<noteq> [] \<and> PodLabelSelector both_reconciler \<noteq> []"
    "StatefulSetName frontend_reconciler \<noteq> [] \<and> PodLabelSelector frontend_reconciler \<noteq> []"
    by (simp_all add: frontend_reconciler_def both_reconciler_def sts_reconciler_def)
  have bel: "fst (belongsToStatefulSet quiet_world both_reconciler demo_pod)"
    "fst (belongsToStatefulSet quiet_world frontend_reconciler demo_pod)"
    unfolding frontend_reconciler_def both_reconciler_def
    by (simp_all add: demo_belongs)
  have sp: "labels_Parse quiet_world = spec_Parse"
    by (simp add: quiet_world_def)
  have t1: "PodLabelSelector both_reconciler = join_terms [(''app'', ''router'')]"
    unfolding selector_texts(1) [symmetric] by (simp add: both_reconciler_def)
  have t2: "PodLabelSelector frontend_reconciler = join_terms [(''app'', ''frontend'')]"
    unfolding selector_texts(2) [symmetric] by (simp add: frontend_reconciler_def both_reconciler_def)
  have p1: "labels_Parse quiet_world (PodLabelSelector both_reconciler) = Inr (satisfies [(''app'', ''router'')])"
    unfolding sp t1 by (rule spec_Parse_join [OF _ well_formed_examples(1)]) simp
  have p2: "labels_Parse quiet_world (PodLabelSelector frontend_reconciler) = Inr (satisfies [(''app'', ''frontend'')])"
    unfolding sp t2 by (rule spec_Parse_join [OF _ well_formed_examples(2)]) simp
  have s1: "satisfies [(''app'', ''router'')] (Labels demo_pod)"
    by (simp add: satisfies_def demo_labels)
  have s2: "\<not> satisfies [(''app'', ''frontend'')] (Labels demo_pod)"
    by (simp add: satisfies_def demo_labels)
  have a: "fst (matchesFilter quiet_world both_reconciler demo_pod)"
  proof -
    have "fst (matchesFilter quiet_world both_reconciler demo_pod) =
        (fst (belongsToStatefulSet quiet_world both_reconciler demo_pod) \<and>
         (\<exists>sel. labels_Parse quiet_world (PodLabelSelector both_reconciler) = Inr sel \<and> sel (Labels demo_pod)))"
      using C6 [of both_reconciler quiet_world demo_pod] names(1) by blast
    then show ?thesis using bel(1) p1 s1 by simp
  qed
  have b: "\<not> fst (matchesFilter quiet_world frontend_reconciler demo_pod)"
  proof -
    have "fst (matchesFilter quiet_world frontend_reconciler demo_pod) =
        (fst (belongsToStatefulSet quiet_world frontend_reconciler demo_pod) \<and>
         (\<exists>sel. labels_Parse quiet_world (PodLabelSelector frontend_reconciler) = Inr sel \<and> sel (Labels demo_pod)))"
      using C6 [of frontend_reconciler quiet_world demo_pod] names(2) by blast
    then show ?thesis using p2 s2 by simp
  qed
  have j: "PodLabelSelector label_reconciler = join_terms [(''app'', ''router'')]"
    unfolding selector_texts(1) [symmetric] by (simp add: label_reconciler_def)
  have j2: "PodLabelSelector ?two = join_terms [(''app'', ''router''), (''component'', ''druid'')]"
    by simp
  have n: "StatefulSetName label_reconciler = []" "StatefulSetName ?two = []"
    by (simp_all add: label_reconciler_def)
  have ne: "[(''app'', ''router'')] \<noteq> []" "[(''app'', ''router''), (''component'', ''druid'')] \<noteq> []"
    by simp_all
  have c: "fst (matchesFilter quiet_world label_reconciler demo_pod)"
  proof -
    have "fst (matchesFilter quiet_world label_reconciler demo_pod) =
        (\<forall>(k, v) \<in> set [(''app'', ''router'')]. Labels demo_pod k = Some v)"
      using C6 [of label_reconciler quiet_world demo_pod] n(1) sp ne(1) well_formed_examples(1) j
      by blast
    then show ?thesis by (simp add: demo_labels)
  qed
  have d: "\<not> fst (matchesFilter quiet_world ?two demo_pod)"
  proof -
    have "fst (matchesFilter quiet_world ?two demo_pod) =
        (\<forall>(k, v) \<in> set [(''app'', ''router''), (''component'', ''druid'')]. Labels demo_pod k = Some v)"
      using C6 [of ?two quiet_world demo_pod] n(2) sp ne(2) well_formed_examples(3) j2
      by blast
    then show ?thesis by (simp add: demo_labels)
  qed
  from bel a b j c d show ?thesis by simp
qed

end
